theory Spec2Isabelle
  imports Main
begin

section \<open>Python values and exceptions\<close>

text \<open>
  The flight tool works on the objects that \<^verbatim>\<open>json.loads\<close> produces: \<^verbatim>\<open>None\<close>, booleans,
  integers, floats, strings, lists and dicts. A dict is an association list read with
  \<open>map_of\<close> (keys in insertion order, as \<^verbatim>\<open>json.dumps\<close> prints them). A float is kept as
  mantissa and exponent; the code only ever tests it for truth. A string is a list of
  characters, one per code point, so \<open>length\<close> is Python's \<^verbatim>\<open>len\<close> (the characters of the
  model are the first 256 code points).
\<close>

datatype json =
    JNull
  | JBool bool
  | JInt int
  | JFloat int int
  | JStr string
  | JArr "json list"
  | JObj "(string \<times> json) list"

text \<open>
  The body of \<^verbatim>\<open>ResponseError\<close> as the handler reads it: \<open>err_str\<close> is \<^verbatim>\<open>str(error)\<close>,
  \<open>err_body\<close> is \<^verbatim>\<open>error.response.body\<close> (\<open>None\<close> when the response has no body).
\<close>

record response_error =
  err_str :: string
  err_body :: "string option"

text \<open>
  Exceptions are values. Every constructor is a subclass of \<^verbatim>\<open>Exception\<close>; the string is
  what \<^verbatim>\<open>str(error)\<close> prints, except for \<open>KeyError\<close>, which carries the missing key.
\<close>

datatype py_exn =
    ResponseError response_error
  | ValueError string
  | KeyError string
  | TypeError string
  | AttributeError string
  | OtherException string

fun exn_str :: "py_exn \<Rightarrow> string" where
  "exn_str (ResponseError r) = err_str r"
| "exn_str (ValueError m) = m"
| "exn_str (KeyError k) = [CHR 0x27] @ k @ [CHR 0x27]"
| "exn_str (TypeError m) = m"
| "exn_str (AttributeError m) = m"
| "exn_str (OtherException m) = m"

text \<open>Sequencing of fallible steps: the first exception ends the computation.\<close>

fun and_then :: "'e + 'a \<Rightarrow> ('a \<Rightarrow> 'e + 'b) \<Rightarrow> 'e + 'b" where
  "and_then (Inl e) f = Inl e"
| "and_then (Inr x) f = f x"

text \<open>A \<^verbatim>\<open>for\<close> loop that appends one result per element and stops at the first exception.\<close>

fun for_each :: "('a \<Rightarrow> 'e + 'b) \<Rightarrow> 'a list \<Rightarrow> 'e + 'b list" where
  "for_each f [] = Inr []"
| "for_each f (x # xs) =
     (case f x of
        Inl e \<Rightarrow> Inl e
      | Inr y \<Rightarrow> (case for_each f xs of Inl e \<Rightarrow> Inl e | Inr ys \<Rightarrow> Inr (y # ys)))"

fun type_name :: "json \<Rightarrow> string" where
  "type_name JNull = ''NoneType''"
| "type_name (JBool b) = ''bool''"
| "type_name (JInt i) = ''int''"
| "type_name (JFloat m e) = ''float''"
| "type_name (JStr s) = ''str''"
| "type_name (JArr xs) = ''list''"
| "type_name (JObj kvs) = ''dict''"

definition quoted :: "string \<Rightarrow> string" where
  "quoted s = [CHR 0x27] @ s @ [CHR 0x27]"

text \<open>Truth value of an object (\<^verbatim>\<open>if x:\<close>, \<^verbatim>\<open>not x\<close>).\<close>

fun truthy :: "json \<Rightarrow> bool" where
  "truthy JNull = False"
| "truthy (JBool b) = b"
| "truthy (JInt i) = (i \<noteq> 0)"
| "truthy (JFloat m e) = (m \<noteq> 0)"
| "truthy (JStr s) = (s \<noteq> [])"
| "truthy (JArr xs) = (xs \<noteq> [])"
| "truthy (JObj kvs) = (kvs \<noteq> [])"

text \<open>\<^verbatim>\<open>x[k]\<close> with a string key: only a dict has one, and a missing key is a \<^verbatim>\<open>KeyError\<close>.\<close>

fun getitem :: "json \<Rightarrow> string \<Rightarrow> py_exn + json" where
  "getitem (JObj kvs) k = (case map_of kvs k of None \<Rightarrow> Inl (KeyError k) | Some v \<Rightarrow> Inr v)"
| "getitem (JArr xs) k = Inl (TypeError ''list indices must be integers or slices, not str'')"
| "getitem (JStr s) k = Inl (TypeError (''string indices must be integers, not '' @ quoted ''str''))"
| "getitem v k = Inl (TypeError (quoted (type_name v) @ '' object is not subscriptable''))"

text \<open>\<^verbatim>\<open>x.get(k, default)\<close>: a method of dicts only.\<close>

fun dict_get :: "json \<Rightarrow> string \<Rightarrow> json \<Rightarrow> py_exn + json" where
  "dict_get (JObj kvs) k d = Inr (case map_of kvs k of None \<Rightarrow> d | Some v \<Rightarrow> v)"
| "dict_get v k d =
     Inl (AttributeError (quoted (type_name v) @ '' object has no attribute '' @ quoted ''get''))"

text \<open>\<^verbatim>\<open>sub in s\<close> on strings: \<open>sub\<close> occurs in \<open>s\<close> as a contiguous run.\<close>

fun str_contains :: "string \<Rightarrow> string \<Rightarrow> bool" where
  "str_contains sub [] = (sub = [])"
| "str_contains sub (c # cs) = (take (length sub) (c # cs) = sub \<or> str_contains sub cs)"

text \<open>\<^verbatim>\<open>k in x\<close> with a string \<open>k\<close>: key of a dict, element of a list, substring of a string.\<close>

fun contains :: "string \<Rightarrow> json \<Rightarrow> py_exn + bool" where
  "contains k (JObj kvs) = Inr (map_of kvs k \<noteq> None)"
| "contains k (JArr xs) = Inr (JStr k \<in> set xs)"
| "contains k (JStr s) = Inr (str_contains k s)"
| "contains k v = Inl (TypeError (''argument of type '' @ quoted (type_name v) @ '' is not iterable''))"

text \<open>\<^verbatim>\<open>for e in x\<close>: the elements of a list, the keys of a dict, the characters of a string.\<close>

fun iterate :: "json \<Rightarrow> py_exn + json list" where
  "iterate (JArr xs) = Inr xs"
| "iterate (JObj kvs) = Inr (map (\<lambda>kv. JStr (fst kv)) kvs)"
| "iterate (JStr s) = Inr (map (\<lambda>c. JStr [c]) s)"
| "iterate v = Inl (TypeError (quoted (type_name v) @ '' object is not iterable''))"

fun py_len :: "json \<Rightarrow> py_exn + int" where
  "py_len (JArr xs) = Inr (int (length xs))"
| "py_len (JObj kvs) = Inr (int (length kvs))"
| "py_len (JStr s) = Inr (int (length s))"
| "py_len v = Inl (TypeError (''object of type '' @ quoted (type_name v) @ '' has no len()''))"

fun join_str :: "string \<Rightarrow> string list \<Rightarrow> string" where
  "join_str sep [] = []"
| "join_str sep [x] = x"
| "join_str sep (x # y # ys) = x @ sep @ join_str sep (y # ys)"

section \<open>The flight tool (flight_toolkit.py)\<close>

subsection \<open>What the tool calls\<close>

text \<open>
  Everything \<^verbatim>\<open>search_flights\<close> takes from outside the repository is a field of the
  environment: the clock (\<open>now\<close>, the day number of \<^verbatim>\<open>datetime.now()\<close>; adding
  \<^verbatim>\<open>timedelta(days=1)\<close> is \<open>+ 1\<close> on day numbers), \<^verbatim>\<open>datetime.strptime(s, '%Y-%m-%d')\<close>
  (\<open>Inl\<close> the message of its \<^verbatim>\<open>ValueError\<close>, \<open>Inr\<close> the day number of the parsed date),
  \<^verbatim>\<open>strftime('%Y-%m-%d')\<close>, the aggregator's flight-offer search (\<open>Inl\<close> what the call
  raises, \<open>Inr\<close> the \<^verbatim>\<open>data\<close> of its response), \<^verbatim>\<open>json.loads\<close> (\<open>None\<close> when it raises),
  \<^verbatim>\<open>json.dumps\<close>, and \<^verbatim>\<open>str\<close> on an object that is not a string. Day numbers have no upper
  bound: the last day \<^verbatim>\<open>datetime\<close> can hold is outside the model. Logging changes no
  result and is left out.
\<close>

datatype kwarg = KStr string | KInt int

type_synonym kwargs = "(string \<times> kwarg) list"

record env =
  now :: nat
  strptime :: "string \<Rightarrow> string + nat"
  strftime :: "nat \<Rightarrow> string"
  flight_offers_search :: "kwargs \<Rightarrow> py_exn + json"
  json_loads :: "string \<Rightarrow> json option"
  json_dumps :: "json \<Rightarrow> string"
  py_str :: "json \<Rightarrow> string"

text \<open>A value inside an f-string: a string prints as itself, anything else through \<^verbatim>\<open>str\<close>.\<close>

definition format_value :: "env \<Rightarrow> json \<Rightarrow> string" where
  "format_value e v = (case v of JStr s \<Rightarrow> s | _ \<Rightarrow> py_str e v)"

subsection \<open>validate_inputs\<close>

definition check_airport_codes :: "string \<Rightarrow> string \<Rightarrow> py_exn + unit" where
  "check_airport_codes origin destination =
     (if origin = [] \<or> destination = [] then
        Inl (ValueError ''Origin and destination airport codes are required'')
      else if length origin \<noteq> 3 \<or> length destination \<noteq> 3 then
        Inl (ValueError ''Airport codes must be 3-letter IATA codes'')
      else Inr ())"

definition check_departure_date :: "env \<Rightarrow> string \<Rightarrow> py_exn + unit" where
  "check_departure_date e departure_date =
     (if departure_date \<noteq> [] then
        (case strptime e departure_date of
           Inl m \<Rightarrow> Inl (ValueError ''Departure date must be in YYYY-MM-DD format'')
         | Inr departure_dt \<Rightarrow> Inr ())
      else Inr ())"

text \<open>The body of the second \<^verbatim>\<open>try\<close>: both dates are parsed, either parse may raise.\<close>

definition return_date_try :: "env \<Rightarrow> string \<Rightarrow> string \<Rightarrow> py_exn + unit" where
  "return_date_try e departure_date r =
     (case strptime e r of
        Inl m \<Rightarrow> Inl (ValueError m)
      | Inr return_dt \<Rightarrow>
          if departure_date \<noteq> [] then
            (case strptime e departure_date of
               Inl m \<Rightarrow> Inl (ValueError m)
             | Inr departure_dt \<Rightarrow>
                 if return_dt < departure_dt then
                   Inl (ValueError ''Return date must be after departure date'')
                 else Inr ())
          else Inr ())"

text \<open>
  Its handler: a \<^verbatim>\<open>ValueError\<close> whose text contains \<^verbatim>\<open>must be after\<close> is raised again as
  it is, any other one is replaced by the format message.
\<close>

definition check_return_date :: "env \<Rightarrow> string \<Rightarrow> string option \<Rightarrow> py_exn + unit" where
  "check_return_date e departure_date return_date =
     (case return_date of
        None \<Rightarrow> Inr ()
      | Some r \<Rightarrow>
          if r = [] then Inr ()
          else
            (case return_date_try e departure_date r of
               Inl (ValueError m) \<Rightarrow>
                 if str_contains ''must be after'' m then Inl (ValueError m)
                 else Inl (ValueError ''Return date must be in YYYY-MM-DD format'')
             | Inl ex \<Rightarrow> Inl ex
             | Inr u \<Rightarrow> Inr u))"

definition check_adults :: "int \<Rightarrow> py_exn + unit" where
  "check_adults adults =
     (if adults < 1 then Inl (ValueError ''Number of adults must be a positive integer'')
      else Inr ())"

definition validate_inputs ::
  "env \<Rightarrow> string \<Rightarrow> string \<Rightarrow> string \<Rightarrow> string option \<Rightarrow> int \<Rightarrow> py_exn + unit" where
  "validate_inputs e origin destination departure_date return_date adults =
     and_then (check_airport_codes origin destination) (\<lambda>_.
     and_then (check_departure_date e departure_date) (\<lambda>_.
     and_then (check_return_date e departure_date return_date) (\<lambda>_.
     check_adults adults)))"

subsection \<open>parse_error_response\<close>

definition error_detail :: "env \<Rightarrow> json \<Rightarrow> py_exn + string" where
  "error_detail e err =
     and_then (dict_get err ''title'' (JStr ''Error'')) (\<lambda>title.
     and_then (dict_get err ''detail'' (JStr ''Unknown error'')) (\<lambda>det.
     and_then (contains ''source'' err) (\<lambda>has_source.
     and_then (if has_source then and_then (getitem err ''source'') (contains ''parameter'')
               else Inr False) (\<lambda>has_parameter.
     if has_parameter then
       and_then (getitem err ''source'') (\<lambda>source.
       and_then (getitem source ''parameter'') (\<lambda>p.
       Inr (format_value e title @ '': '' @ format_value e det
            @ '' (parameter: '' @ format_value e p @ '')'')))
     else Inr (format_value e title @ '': '' @ format_value e det)))))"

text \<open>
  The inner \<^verbatim>\<open>if\<close> on the parsed body: \<open>Inr (Some s)\<close> is its \<^verbatim>\<open>return\<close>, \<open>Inr None\<close> falls
  through to \<^verbatim>\<open>return str(error)\<close>.
\<close>

definition error_body_details :: "env \<Rightarrow> json \<Rightarrow> py_exn + string option" where
  "error_body_details e error_body =
     and_then (contains ''errors'' error_body) (\<lambda>has_errors.
     if \<not> has_errors then Inr None
     else
       and_then (getitem error_body ''errors'') (\<lambda>errors.
       if \<not> truthy errors then Inr None
       else
         and_then (iterate errors) (\<lambda>errs.
         and_then (for_each (error_detail e) errs) (\<lambda>error_details.
         Inr (Some (join_str ''; '' error_details))))))"

definition parse_error_response :: "env \<Rightarrow> response_error \<Rightarrow> string" where
  "parse_error_response e error =
     (case err_body error of
        None \<Rightarrow> err_str error
      | Some body \<Rightarrow>
          if body = [] then err_str error
          else
            (case json_loads e body of
               None \<Rightarrow> err_str error
             | Some error_body \<Rightarrow>
                 (case error_body_details e error_body of
                    Inr (Some details) \<Rightarrow> details
                  | Inr None \<Rightarrow> err_str error
                  | Inl ex \<Rightarrow> err_str error)))"

subsection \<open>process_flight_results\<close>

text \<open>
  The dict literals are evaluated field by field, in the order written; the first lookup
  that raises decides the exception. \<^verbatim>\<open>segment['departure']\<close> is looked up once here and
  three times in the source, with the same result each time.
\<close>

definition process_endpoint :: "json \<Rightarrow> py_exn + json" where
  "process_endpoint p =
     and_then (getitem p ''iataCode'') (\<lambda>iataCode.
     and_then (dict_get p ''terminal'' (JStr ''N/A'')) (\<lambda>terminal.
     and_then (getitem p ''at'') (\<lambda>at.
     Inr (JObj [(''iataCode'', iataCode), (''terminal'', terminal), (''at'', at)]))))"

definition process_segment :: "json \<Rightarrow> py_exn + json" where
  "process_segment segment =
     and_then (and_then (getitem segment ''departure'') process_endpoint) (\<lambda>departure.
     and_then (and_then (getitem segment ''arrival'') process_endpoint) (\<lambda>arrival.
     and_then (getitem segment ''carrierCode'') (\<lambda>carrierCode.
     and_then (getitem segment ''number'') (\<lambda>flightNumber.
     and_then (and_then (dict_get segment ''aircraft'' (JObj []))
                 (\<lambda>a. dict_get a ''code'' (JStr ''N/A''))) (\<lambda>aircraft.
     and_then (dict_get segment ''duration'' (JStr ''N/A'')) (\<lambda>duration.
     Inr (JObj [(''departure'', departure), (''arrival'', arrival),
                (''carrierCode'', carrierCode), (''flightNumber'', flightNumber),
                (''aircraft'', aircraft), (''duration'', duration)])))))))"

definition process_itinerary :: "json \<Rightarrow> py_exn + json" where
  "process_itinerary itinerary =
     and_then (and_then (getitem itinerary ''segments'') iterate) (\<lambda>raw_segments.
     and_then (for_each process_segment raw_segments) (\<lambda>segments.
     and_then (dict_get itinerary ''duration'' (JStr ''N/A'')) (\<lambda>duration.
     Inr (JObj [(''duration'', duration), (''segments'', JArr segments)]))))"

definition process_offer :: "json \<Rightarrow> py_exn + json" where
  "process_offer offer =
     and_then (getitem offer ''id'') (\<lambda>offer_id.
     and_then (and_then (getitem offer ''price'') (\<lambda>p. getitem p ''total'')) (\<lambda>total.
     and_then (and_then (getitem offer ''price'') (\<lambda>p. getitem p ''currency'')) (\<lambda>currency.
     and_then (and_then (getitem offer ''itineraries'') iterate) (\<lambda>raw_itineraries.
     and_then (for_each process_itinerary raw_itineraries) (\<lambda>itineraries.
     Inr (JObj [(''id'', offer_id),
                (''price'', JObj [(''total'', total), (''currency'', currency)]),
                (''itineraries'', JArr itineraries)]))))))"

definition process_flight_results :: "json \<Rightarrow> py_exn + json" where
  "process_flight_results flight_data =
     (if \<not> truthy flight_data then Inr (JObj [(''count'', JInt 0), (''flights'', JArr [])])
      else
        and_then (py_len flight_data) (\<lambda>n.
        and_then (iterate flight_data) (\<lambda>offers.
        and_then (for_each process_offer offers) (\<lambda>flights.
        Inr (JObj [(''count'', JInt n), (''flights'', JArr flights)])))))"

subsection \<open>search_flights\<close>

text \<open>The keyword arguments of the remote call, in the order the code inserts them.\<close>

definition travel_classes :: "string list" where
  "travel_classes = [''ECONOMY'', ''PREMIUM_ECONOMY'', ''BUSINESS'', ''FIRST'']"

definition request_kwargs ::
  "string \<Rightarrow> string \<Rightarrow> string \<Rightarrow> string option \<Rightarrow> int \<Rightarrow> string \<Rightarrow> int \<Rightarrow> bool
     \<Rightarrow> string option \<Rightarrow> kwargs" where
  "request_kwargs origin destination departure_date return_date adults currency max_results
       non_stop travel_class =
     [(''originLocationCode'', KStr origin),
      (''destinationLocationCode'', KStr destination),
      (''departureDate'', KStr departure_date),
      (''adults'', KInt adults),
      (''currencyCode'', KStr currency),
      (''max'', KInt max_results)]
     @ (case return_date of
          None \<Rightarrow> []
        | Some r \<Rightarrow> if r \<noteq> [] then [(''returnDate'', KStr r)] else [])
     @ (if non_stop then [(''nonStop'', KStr ''true'')] else [])
     @ (case travel_class of
          None \<Rightarrow> []
        | Some t \<Rightarrow>
            if t \<noteq> [] \<and> t \<in> set travel_classes then [(''travelClass'', KStr t)]
            else [])"

text \<open>
  A run of the tool: what it hands back to its caller (\<open>Inl\<close> an exception that escapes,
  \<open>Inr\<close> the string returned) and the remote requests it made, in order.
\<close>

record tool_run =
  returned :: "py_exn + string"
  requests :: "kwargs list"

text \<open>The \<^verbatim>\<open>try\<close> block.\<close>

definition search_flights_try ::
  "env \<Rightarrow> string \<Rightarrow> string \<Rightarrow> string \<Rightarrow> string option \<Rightarrow> int \<Rightarrow> string \<Rightarrow> int \<Rightarrow> bool
     \<Rightarrow> string option \<Rightarrow> tool_run" where
  "search_flights_try e origin destination departure_date return_date adults currency
       max_results non_stop travel_class =
     (case validate_inputs e origin destination departure_date return_date adults of
        Inl ex \<Rightarrow> \<lparr>returned = Inl ex, requests = []\<rparr>
      | Inr _ \<Rightarrow>
          (let departure_date' =
                 (if departure_date = [] then strftime e (now e + 1) else departure_date);
               kw = request_kwargs origin destination departure_date' return_date adults
                      currency max_results non_stop travel_class
           in \<lparr>returned =
                  and_then (flight_offers_search e kw) (\<lambda>data.
                  and_then (process_flight_results data) (\<lambda>processed_results.
                  Inr (json_dumps e processed_results))),
                requests = [kw]\<rparr>))"

text \<open>The three \<^verbatim>\<open>except\<close> clauses, tried in the order written.\<close>

fun handle_exn :: "env \<Rightarrow> py_exn \<Rightarrow> py_exn + string" where
  "handle_exn e (ResponseError error) =
     Inr (''Error searching flights: '' @ parse_error_response e error)"
| "handle_exn e (ValueError m) = Inr (''Validation error: '' @ m)"
| "handle_exn e ex = Inr (''An unexpected error occurred: '' @ exn_str ex)"

definition search_flights ::
  "env \<Rightarrow> string \<Rightarrow> string \<Rightarrow> string \<Rightarrow> string option \<Rightarrow> int \<Rightarrow> string \<Rightarrow> int \<Rightarrow> bool
     \<Rightarrow> string option \<Rightarrow> tool_run" where
  "search_flights e origin destination departure_date return_date adults currency
       max_results non_stop travel_class =
     (let r = search_flights_try e origin destination departure_date return_date adults
                currency max_results non_stop travel_class
      in (case returned r of
            Inl ex \<Rightarrow> r\<lparr>returned := handle_exn e ex\<rparr>
          | Inr s \<Rightarrow> r))"

subsection \<open>The aggregator's schema\<close>

text \<open>
  A raw flight offer as the aggregator defines it: \<^verbatim>\<open>id\<close>, \<^verbatim>\<open>price\<close> with \<^verbatim>\<open>total\<close> and
  \<^verbatim>\<open>currency\<close>, and a list of itineraries, each a list of segments with \<^verbatim>\<open>departure\<close> and
  \<^verbatim>\<open>arrival\<close> (\<^verbatim>\<open>iataCode\<close>, \<^verbatim>\<open>at\<close>), \<^verbatim>\<open>carrierCode\<close> and \<^verbatim>\<open>number\<close>. The terminals, the
  aircraft (a dict when present), its code and the durations are optional.
\<close>

definition has_key :: "json \<Rightarrow> string \<Rightarrow> bool" where
  "has_key v k = (case v of JObj kvs \<Rightarrow> map_of kvs k \<noteq> None | _ \<Rightarrow> False)"

definition is_dict :: "json \<Rightarrow> bool" where
  "is_dict v = (case v of JObj kvs \<Rightarrow> True | _ \<Rightarrow> False)"

text \<open>Reading a field of a dict: \<open>None\<close> when the key is absent or the object is no dict.\<close>

definition field :: "string \<Rightarrow> json \<Rightarrow> json option" where
  "field k v = (case v of JObj kvs \<Rightarrow> map_of kvs k | _ \<Rightarrow> None)"

definition endpoint_ok :: "json \<Rightarrow> bool" where
  "endpoint_ok p = (has_key p ''iataCode'' \<and> has_key p ''at'')"

definition segment_ok :: "json \<Rightarrow> bool" where
  "segment_ok s =
     ((case field ''departure'' s of Some d \<Rightarrow> endpoint_ok d | None \<Rightarrow> False) \<and>
      (case field ''arrival'' s of Some a \<Rightarrow> endpoint_ok a | None \<Rightarrow> False) \<and>
      has_key s ''carrierCode'' \<and> has_key s ''number'' \<and>
      (case field ''aircraft'' s of Some a \<Rightarrow> is_dict a | None \<Rightarrow> True))"

definition itinerary_ok :: "json \<Rightarrow> bool" where
  "itinerary_ok i =
     (case field ''segments'' i of
        Some (JArr segments) \<Rightarrow> list_all segment_ok segments
      | _ \<Rightarrow> False)"

definition offer_ok :: "json \<Rightarrow> bool" where
  "offer_ok offer =
     (has_key offer ''id'' \<and>
      (case field ''price'' offer of
         Some p \<Rightarrow> has_key p ''total'' \<and> has_key p ''currency''
       | None \<Rightarrow> False) \<and>
      (case field ''itineraries'' offer of
         Some (JArr itineraries) \<Rightarrow> list_all itinerary_ok itineraries
       | _ \<Rightarrow> False))"

text \<open>The \<^verbatim>\<open>data\<close> of a response: absent (\<^verbatim>\<open>None\<close>) or a list of offers.\<close>

definition offers_ok :: "json \<Rightarrow> bool" where
  "offers_ok flight_data =
     (case flight_data of
        JNull \<Rightarrow> True
      | JArr offers \<Rightarrow> list_all offer_ok offers
      | _ \<Rightarrow> False)"

subsection \<open>A concrete environment\<close>

text \<open>
  Today is 2025-03-14 (day 739324). The parser knows four dates and the aggregator has no
  offers. \<^verbatim>\<open>json.dumps\<close> is a printer on one line: different documents give different
  strings.
\<close>

fun show_nat :: "nat \<Rightarrow> string" where
  "show_nat n =
     (if n < 10 then [''0123456789'' ! n]
      else show_nat (n div 10) @ [''0123456789'' ! (n mod 10)])"

declare show_nat.simps [simp del]

definition show_int :: "int \<Rightarrow> string" where
  "show_int i = (if i < 0 then ''-'' @ show_nat (nat (- i)) else show_nat (nat i))"

fun show_json :: "json \<Rightarrow> string"
  and show_items :: "json list \<Rightarrow> string"
  and show_members :: "(string \<times> json) list \<Rightarrow> string" where
  "show_json JNull = ''null''"
| "show_json (JBool b) = (if b then ''true'' else ''false'')"
| "show_json (JInt i) = show_int i"
| "show_json (JFloat m e) = show_int m @ ''*2^'' @ show_int e"
| "show_json (JStr s) = [CHR 0x22] @ s @ [CHR 0x22]"
| "show_json (JArr xs) = ''['' @ show_items xs @ '']''"
| "show_json (JObj kvs) = ''{'' @ show_members kvs @ ''}''"
| "show_items [] = []"
| "show_items [x] = show_json x"
| "show_items (x # y # ys) = show_json x @ '', '' @ show_items (y # ys)"
| "show_members [] = []"
| "show_members [(k, v)] = [CHR 0x22] @ k @ [CHR 0x22] @ '': '' @ show_json v"
| "show_members ((k, v) # kv # kvs) =
     [CHR 0x22] @ k @ [CHR 0x22] @ '': '' @ show_json v @ '', '' @ show_members (kv # kvs)"

definition example_strptime :: "string \<Rightarrow> string + nat" where
  "example_strptime s =
     (case map_of [(''2020-01-01'', 737425), (''2025-03-10'', 739320),
                   (''2025-03-15'', 739325), (''2025-03-20'', 739330)] s of
        Some n \<Rightarrow> Inr n
      | None \<Rightarrow> Inl (''time data '' @ quoted s @ '' does not match format '' @ quoted ''%Y-%m-%d''))"

definition example_strftime :: "nat \<Rightarrow> string" where
  "example_strftime n =
     (if n = 739324 then ''2025-03-14'' else if n = 739325 then ''2025-03-15'' else ''0001-01-01'')"

definition example_env :: env where
  "example_env =
     \<lparr>now = 739324,
      strptime = example_strptime,
      strftime = example_strftime,
      flight_offers_search = (\<lambda>kw. Inr (JArr [])),
      json_loads = (\<lambda>s. None),
      json_dumps = show_json,
      py_str = (\<lambda>v. ''?'')\<rparr>"

subsection \<open>The reshaped document, field by field\<close>

text \<open>
  What the specification says of the reshaped output, written as relations between a raw
  object and its rendering: a mandatory field is present and copied, an optional field is
  copied when present and is the literal \<^verbatim>\<open>N/A\<close> when absent. A path walks through dicts
  by key and through lists by position.
\<close>

datatype hop = Key string | Idx nat

fun at_path :: "json \<Rightarrow> hop list \<Rightarrow> json option" where
  "at_path v [] = Some v"
| "at_path v (Key k # p) = (case field k v of None \<Rightarrow> None | Some x \<Rightarrow> at_path x p)"
| "at_path v (Idx i # p) =
     (case v of
        JArr xs \<Rightarrow> if i < length xs then at_path (xs ! i) p else None
      | _ \<Rightarrow> None)"

definition copied :: "json option \<Rightarrow> json option \<Rightarrow> bool" where
  "copied raw out = (raw \<noteq> None \<and> out = raw)"

definition copied_or_NA :: "json option \<Rightarrow> json option \<Rightarrow> bool" where
  "copied_or_NA raw out = (out = Some (case raw of None \<Rightarrow> JStr ''N/A'' | Some v \<Rightarrow> v))"

definition segment_rendered :: "json \<Rightarrow> json \<Rightarrow> bool" where
  "segment_rendered seg out =
     (copied (at_path seg [Key ''departure'', Key ''iataCode''])
             (at_path out [Key ''departure'', Key ''iataCode'']) \<and>
      copied_or_NA (at_path seg [Key ''departure'', Key ''terminal''])
                   (at_path out [Key ''departure'', Key ''terminal'']) \<and>
      copied (at_path seg [Key ''departure'', Key ''at''])
             (at_path out [Key ''departure'', Key ''at'']) \<and>
      copied (at_path seg [Key ''arrival'', Key ''iataCode''])
             (at_path out [Key ''arrival'', Key ''iataCode'']) \<and>
      copied_or_NA (at_path seg [Key ''arrival'', Key ''terminal''])
                   (at_path out [Key ''arrival'', Key ''terminal'']) \<and>
      copied (at_path seg [Key ''arrival'', Key ''at''])
             (at_path out [Key ''arrival'', Key ''at'']) \<and>
      copied (at_path seg [Key ''carrierCode'']) (at_path out [Key ''carrierCode'']) \<and>
      copied (at_path seg [Key ''number'']) (at_path out [Key ''flightNumber'']) \<and>
      copied_or_NA (at_path seg [Key ''aircraft'', Key ''code'']) (at_path out [Key ''aircraft'']) \<and>
      copied_or_NA (at_path seg [Key ''duration'']) (at_path out [Key ''duration'']))"

definition itinerary_rendered :: "json \<Rightarrow> json \<Rightarrow> bool" where
  "itinerary_rendered itinerary out =
     copied_or_NA (at_path itinerary [Key ''duration'']) (at_path out [Key ''duration''])"

definition offer_rendered :: "json \<Rightarrow> json \<Rightarrow> bool" where
  "offer_rendered offer out =
     (copied (at_path offer [Key ''id'']) (at_path out [Key ''id'']) \<and>
      copied (at_path offer [Key ''price'', Key ''total''])
             (at_path out [Key ''price'', Key ''total'']) \<and>
      copied (at_path offer [Key ''price'', Key ''currency''])
             (at_path out [Key ''price'', Key ''currency'']))"

text \<open>The same document as a function of the raw one, for raw data that follows the schema.\<close>

definition field_or :: "string \<Rightarrow> json \<Rightarrow> json \<Rightarrow> json" where
  "field_or k d v = (case field k v of None \<Rightarrow> d | Some x \<Rightarrow> x)"

definition elements :: "json option \<Rightarrow> json list" where
  "elements v = (case v of Some (JArr xs) \<Rightarrow> xs | _ \<Rightarrow> [])"

definition reshape_endpoint :: "json \<Rightarrow> json" where
  "reshape_endpoint p =
     JObj [(''iataCode'', the (field ''iataCode'' p)),
           (''terminal'', field_or ''terminal'' (JStr ''N/A'') p),
           (''at'', the (field ''at'' p))]"

definition reshape_segment :: "json \<Rightarrow> json" where
  "reshape_segment s =
     JObj [(''departure'', reshape_endpoint (the (field ''departure'' s))),
           (''arrival'', reshape_endpoint (the (field ''arrival'' s))),
           (''carrierCode'', the (field ''carrierCode'' s)),
           (''flightNumber'', the (field ''number'' s)),
           (''aircraft'', field_or ''code'' (JStr ''N/A'') (field_or ''aircraft'' (JObj []) s)),
           (''duration'', field_or ''duration'' (JStr ''N/A'') s)]"

definition reshape_itinerary :: "json \<Rightarrow> json" where
  "reshape_itinerary i =
     JObj [(''duration'', field_or ''duration'' (JStr ''N/A'') i),
           (''segments'', JArr (map reshape_segment (elements (field ''segments'' i))))]"

definition reshape_offer :: "json \<Rightarrow> json" where
  "reshape_offer offer =
     JObj [(''id'', the (field ''id'' offer)),
           (''price'', JObj [(''total'', the (field ''total'' (the (field ''price'' offer)))),
                             (''currency'', the (field ''currency'' (the (field ''price'' offer))))]),
           (''itineraries'', JArr (map reshape_itinerary (elements (field ''itineraries'' offer))))]"

subsection \<open>Remote error bodies\<close>






subsection \<open>A raw offer\<close>

text \<open>
  One offer with one itinerary of one segment. The segment has no departure terminal, no
  aircraft and no duration; the itinerary has no duration.
\<close>

definition example_segment :: json where
  "example_segment =
     JObj [(''departure'', JObj [(''iataCode'', JStr ''JFK''),
                                 (''at'', JStr ''2025-03-15T18:00:00'')]),
           (''arrival'', JObj [(''iataCode'', JStr ''LHR''), (''terminal'', JStr ''5''),
                               (''at'', JStr ''2025-03-16T06:00:00'')]),
           (''carrierCode'', JStr ''BA''),
           (''number'', JStr ''178'')]"

definition example_offer :: json where
  "example_offer =
     JObj [(''id'', JStr ''1''),
           (''price'', JObj [(''total'', JStr ''355.34''), (''currency'', JStr ''INR'')]),
           (''itineraries'', JArr [JObj [(''segments'', JArr [example_segment])]])]"

text \<open>The same offer with a segment whose \<^verbatim>\<open>aircraft\<close> is \<^verbatim>\<open>null\<close>.\<close>

definition null_aircraft_segment :: json where
  "null_aircraft_segment =
     JObj [(''departure'', JObj [(''iataCode'', JStr ''JFK''),
                                 (''at'', JStr ''2025-03-15T18:00:00'')]),
           (''arrival'', JObj [(''iataCode'', JStr ''LHR''), (''terminal'', JStr ''5''),
                               (''at'', JStr ''2025-03-16T06:00:00'')]),
           (''carrierCode'', JStr ''BA''),
           (''number'', JStr ''178''),
           (''aircraft'', JNull)]"

definition null_aircraft_offer :: json where
  "null_aircraft_offer =
     JObj [(''id'', JStr ''1''),
           (''price'', JObj [(''total'', JStr ''355.34''), (''currency'', JStr ''INR'')]),
           (''itineraries'', JArr [JObj [(''segments'', JArr [null_aircraft_segment])]])]"

text \<open>The environment of the examples, with an aggregator that answers with this offer.\<close>

definition offers_env :: env where
  "offers_env = example_env\<lparr>flight_offers_search := (\<lambda>kw. Inr (JArr [example_offer]))\<rparr>"

subsection \<open>A remote error\<close>






section \<open>The workflow (TourMoreAI.py)\<close>

subsection \<open>Records and agents\<close>

text \<open>
  The three response models. The fields keep the names of the source behind a prefix, as
  two of the models share \<^verbatim>\<open>destination\<close>.
\<close>

record TravelInfo =
  ti_destination :: string
  ti_duration :: string
  ti_travel_dates :: string
  ti_purpose :: string
  ti_preferences :: string
  ti_special_requests :: "string option"

record FlightDetails =
  fd_origin :: string
  fd_destination :: string
  fd_departure_date :: string
  fd_return_date :: "string option"
  fd_recommended_flights :: string
  fd_best_option :: string

record DestinationInfo =
  di_accommodations :: string
  di_dining :: string
  di_attractions :: string
  di_transportation :: string
  di_urls :: "string list option"

text \<open>
  What a response's \<^verbatim>\<open>content\<close> can hold: \<^verbatim>\<open>None\<close>, a string (any object that is not one
  of the models behaves like it here: it is not \<^verbatim>\<open>None\<close> and has none of the attributes
  read), or an instance of one of the models.
\<close>

datatype py_object =
    CNone
  | CStr string
  | CTravelInfo TravelInfo
  | CFlightDetails FlightDetails
  | CDestinationInfo DestinationInfo

fun class_name :: "py_object \<Rightarrow> string" where
  "class_name CNone = ''NoneType''"
| "class_name (CStr s) = ''str''"
| "class_name (CTravelInfo t) = ''TravelInfo''"
| "class_name (CFlightDetails f) = ''FlightDetails''"
| "class_name (CDestinationInfo d) = ''DestinationInfo''"

definition no_attribute :: "py_object \<Rightarrow> string \<Rightarrow> py_exn" where
  "no_attribute obj a =
     AttributeError (quoted (class_name obj) @ '' object has no attribute '' @ quoted a)"

text \<open>Reading one of the string-valued attributes the workflow puts into its f-strings.\<close>

definition str_attr :: "py_object \<Rightarrow> string \<Rightarrow> py_exn + string" where
  "str_attr obj a =
     (case obj of
        CTravelInfo t \<Rightarrow>
          (case map_of [(''destination'', ti_destination t), (''duration'', ti_duration t),
                        (''travel_dates'', ti_travel_dates t), (''purpose'', ti_purpose t),
                        (''preferences'', ti_preferences t)] a of
             Some s \<Rightarrow> Inr s | None \<Rightarrow> Inl (no_attribute obj a))
      | CFlightDetails f \<Rightarrow>
          (case map_of [(''origin'', fd_origin f), (''destination'', fd_destination f),
                        (''departure_date'', fd_departure_date f),
                        (''recommended_flights'', fd_recommended_flights f),
                        (''best_option'', fd_best_option f)] a of
             Some s \<Rightarrow> Inr s | None \<Rightarrow> Inl (no_attribute obj a))
      | CDestinationInfo d \<Rightarrow>
          (case map_of [(''accommodations'', di_accommodations d), (''dining'', di_dining d),
                        (''attractions'', di_attractions d),
                        (''transportation'', di_transportation d)] a of
             Some s \<Rightarrow> Inr s | None \<Rightarrow> Inl (no_attribute obj a))
      | _ \<Rightarrow> Inl (no_attribute obj a))"

definition optional_str :: "string option \<Rightarrow> json" where
  "optional_str s = (case s of None \<Rightarrow> JNull | Some x \<Rightarrow> JStr x)"

text \<open>\<^verbatim>\<open>model_dump()\<close>: every model has it, nothing else does.\<close>

definition model_dump :: "py_object \<Rightarrow> py_exn + json" where
  "model_dump obj =
     (case obj of
        CTravelInfo t \<Rightarrow>
          Inr (JObj [(''destination'', JStr (ti_destination t)),
                     (''duration'', JStr (ti_duration t)),
                     (''travel_dates'', JStr (ti_travel_dates t)),
                     (''purpose'', JStr (ti_purpose t)),
                     (''preferences'', JStr (ti_preferences t)),
                     (''special_requests'', optional_str (ti_special_requests t))])
      | CFlightDetails f \<Rightarrow>
          Inr (JObj [(''origin'', JStr (fd_origin f)),
                     (''destination'', JStr (fd_destination f)),
                     (''departure_date'', JStr (fd_departure_date f)),
                     (''return_date'', optional_str (fd_return_date f)),
                     (''recommended_flights'', JStr (fd_recommended_flights f)),
                     (''best_option'', JStr (fd_best_option f))])
      | CDestinationInfo d \<Rightarrow>
          Inr (JObj [(''accommodations'', JStr (di_accommodations d)),
                     (''dining'', JStr (di_dining d)),
                     (''attractions'', JStr (di_attractions d)),
                     (''transportation'', JStr (di_transportation d)),
                     (''urls'', (case di_urls d of None \<Rightarrow> JNull
                                 | Some us \<Rightarrow> JArr (map JStr us)))])
      | _ \<Rightarrow> Inl (no_attribute obj ''model_dump''))"

text \<open>
  The remote agents, each a function of the message it is run on: \<open>Inl\<close> what \<^verbatim>\<open>run\<close>
  raises, \<open>Inr None\<close> a response that is \<^verbatim>\<open>None\<close>, \<open>Inr (Some c)\<close> a response with content
  \<open>c\<close>. \<open>dumps_indent4\<close> is \<^verbatim>\<open>json.dumps(_, indent=4)\<close>.
\<close>

record agents =
  travel_info_agent :: "string \<Rightarrow> py_exn + py_object option"
  flight_search_agent :: "string \<Rightarrow> py_exn + py_object option"
  destination_info_agent :: "string \<Rightarrow> py_exn + py_object option"
  travel_plan_agent :: "string \<Rightarrow> py_exn + py_object option"
  dumps_indent4 :: "json \<Rightarrow> string"

datatype agent_call =
    TravelInfoAgent string
  | FlightSearchAgent string
  | DestinationInfoAgent string
  | TravelPlanAgent string

text \<open>
  \<^verbatim>\<open>response.content\<close> after the two logging checks (which change nothing): reading the
  attribute of a \<^verbatim>\<open>None\<close> response raises.
\<close>

definition response_content :: "py_object option \<Rightarrow> py_exn + py_object" where
  "response_content response =
     (case response of
        None \<Rightarrow> Inl (no_attribute CNone ''content'')
      | Some c \<Rightarrow> Inr c)"

text \<open>A step of the workflow: what it hands back and the agents it ran.\<close>

record step_run =
  outcome :: "py_exn + py_object"
  agent_calls :: "agent_call list"

subsection \<open>The adapters\<close>

text \<open>
  Each adapter is a \<^verbatim>\<open>try\<close> around building the message, running the agent and reading
  the content, with \<^verbatim>\<open>except Exception\<close> after it. After the handler the first, second and
  fourth return \<^verbatim>\<open>None\<close>; the third returns the fallback record.
\<close>

definition extract_travel_info :: "agents \<Rightarrow> string \<Rightarrow> step_run" where
  "extract_travel_info ag travel_request =
     \<lparr>outcome =
        (case and_then (travel_info_agent ag travel_request) response_content of
           Inl ex \<Rightarrow> Inr CNone
         | Inr c \<Rightarrow> Inr c),
      agent_calls = [TravelInfoAgent travel_request]\<rparr>"

definition flight_search_query :: "py_object \<Rightarrow> py_exn + string" where
  "flight_search_query travel_info =
     and_then (str_attr travel_info ''destination'') (\<lambda>destination.
     and_then (str_attr travel_info ''travel_dates'') (\<lambda>travel_dates.
     and_then (str_attr travel_info ''duration'') (\<lambda>duration.
     and_then (str_attr travel_info ''preferences'') (\<lambda>preferences.
     and_then (str_attr travel_info ''purpose'') (\<lambda>purpose.
     Inr (''I need flights to '' @ destination @ ''. ''
          @ ''Departing around '' @ travel_dates @ ''. ''
          @ ''My trip is for '' @ duration @ ''. ''
          @ ''Preferences: '' @ preferences @ ''. ''
          @ ''Purpose: '' @ purpose @ ''. ''))))))"

text \<open>\<^verbatim>\<open>TravelPlannerWorkflow.search_flights\<close> (the tool of the same name is above).\<close>

definition workflow_search_flights :: "agents \<Rightarrow> py_object \<Rightarrow> step_run" where
  "workflow_search_flights ag travel_info =
     (case flight_search_query travel_info of
        Inl ex \<Rightarrow> \<lparr>outcome = Inr CNone, agent_calls = []\<rparr>
      | Inr query \<Rightarrow>
          \<lparr>outcome =
             (case and_then (flight_search_agent ag query) response_content of
                Inl ex \<Rightarrow> Inr CNone
              | Inr c \<Rightarrow> Inr c),
           agent_calls = [FlightSearchAgent query]\<rparr>)"

definition destination_query :: "py_object \<Rightarrow> py_exn + string" where
  "destination_query travel_info =
     and_then (str_attr travel_info ''destination'') (\<lambda>destination.
     and_then (str_attr travel_info ''duration'') (\<lambda>duration.
     and_then (str_attr travel_info ''preferences'') (\<lambda>preferences.
     and_then (str_attr travel_info ''purpose'') (\<lambda>purpose.
     Inr (''I'' @ [CHR 0x27] @ ''m traveling to '' @ destination @ '' for '' @ duration @ ''. ''
          @ ''Please find me good '' @ preferences @ '' accommodations, ''
          @ ''restaurants, tourist attractions, and public transportation options near city center. ''
          @ ''Purpose of visit: '' @ purpose @ ''. '')))))"

definition fallback_info :: DestinationInfo where
  "fallback_info =
     \<lparr>di_accommodations = ''Could not retrieve accommodations due to an error. Please search for hotels in your destination area.'',
      di_dining = ''Could not retrieve dining information due to an error. Please search for restaurants in your destination area.'',
      di_attractions = ''Could not retrieve attractions due to an error. Please search for tourist spots in your destination area.'',
      di_transportation = ''Could not retrieve transportation options.'',
      di_urls = None\<rparr>"

definition get_destination_info :: "agents \<Rightarrow> py_object \<Rightarrow> step_run" where
  "get_destination_info ag travel_info =
     (case destination_query travel_info of
        Inl ex \<Rightarrow> \<lparr>outcome = Inr (CDestinationInfo fallback_info), agent_calls = []\<rparr>
      | Inr query \<Rightarrow>
          \<lparr>outcome =
             (case and_then (destination_info_agent ag query) response_content of
                Inl ex \<Rightarrow> Inr (CDestinationInfo fallback_info)
              | Inr c \<Rightarrow> Inr c),
           agent_calls = [DestinationInfoAgent query]\<rparr>)"

definition travel_plan_input :: "py_object \<Rightarrow> py_object \<Rightarrow> py_object \<Rightarrow> py_exn + json" where
  "travel_plan_input travel_info flight_details destination_info =
     and_then (model_dump travel_info) (\<lambda>t.
     and_then (model_dump flight_details) (\<lambda>f.
     and_then (model_dump destination_info) (\<lambda>d.
     Inr (JObj [(''travel_info'', t), (''flight_details'', f), (''destination_info'', d)]))))"

definition generate_travel_plan ::
  "agents \<Rightarrow> py_object \<Rightarrow> py_object \<Rightarrow> py_object \<Rightarrow> step_run" where
  "generate_travel_plan ag travel_info flight_details destination_info =
     (case travel_plan_input travel_info flight_details destination_info of
        Inl ex \<Rightarrow> \<lparr>outcome = Inr CNone, agent_calls = []\<rparr>
      | Inr plan_input \<Rightarrow>
          \<lparr>outcome =
             (case and_then (travel_plan_agent ag (dumps_indent4 ag plan_input))
                     response_content of
                Inl ex \<Rightarrow> Inr CNone
              | Inr c \<Rightarrow> Inr c),
           agent_calls = [TravelPlanAgent (dumps_indent4 ag plan_input)]\<rparr>)"

subsection \<open>run\<close>

datatype RunEvent = run_response | workflow_completed

record RunResponse =
  content :: py_object
  event :: RunEvent

definition progress :: "string \<Rightarrow> RunResponse" where
  "progress s = \<lparr>content = CStr s, event = run_response\<rparr>"

definition completed :: "string \<Rightarrow> RunResponse" where
  "completed s = \<lparr>content = CStr s, event = workflow_completed\<rparr>"

text \<open>
  A whole iteration of the generator: the responses it yields, the agents run on the way,
  and the exception that ends it early, if any.
\<close>

record workflow_run =
  yielded :: "RunResponse list"
  calls :: "agent_call list"
  raised :: "py_exn option"

text \<open>The f-string of the partial report, its attributes read in the order written.\<close>

definition partial_report :: "py_object \<Rightarrow> py_object \<Rightarrow> py_exn + string" where
  "partial_report flight_details destination_info =
     and_then (str_attr flight_details ''recommended_flights'') (\<lambda>recommended_flights.
     and_then (str_attr flight_details ''best_option'') (\<lambda>best_option.
     and_then (str_attr destination_info ''accommodations'') (\<lambda>accommodations.
     and_then (str_attr destination_info ''dining'') (\<lambda>dining.
     and_then (str_attr destination_info ''attractions'') (\<lambda>attractions.
     and_then (str_attr destination_info ''transportation'') (\<lambda>transportation.
     Inr (''Could not generate a complete travel plan. Here'' @ [CHR 0x27]
          @ ''s what I found so far:'' @ [CHR 0x0A, CHR 0x0A]
          @ ''**Flight Options**: '' @ recommended_flights @ [CHR 0x0A, CHR 0x0A]
          @ ''**Best Flight**: '' @ best_option @ [CHR 0x0A, CHR 0x0A]
          @ ''**Accommodations**: '' @ accommodations @ [CHR 0x0A, CHR 0x0A]
          @ ''**Dining Options**: '' @ dining @ [CHR 0x0A, CHR 0x0A]
          @ ''**Attractions**: '' @ attractions @ [CHR 0x0A, CHR 0x0A]
          @ ''**Local Transportation**: '' @ transportation)))))))"

text \<open>The fixed final messages of the first three steps.\<close>

definition travel_info_apology :: string where
  "travel_info_apology =
     ''Sorry, I couldn'' @ [CHR 0x27] @ ''t extract the necessary travel information. Please provide more details about your trip.''"

definition flights_apology :: string where
  "flights_apology =
     ''Could not find suitable flights for your travel dates. Please try different dates or destinations.''"

definition destination_apology :: string where
  "destination_apology =
     ''Could not find detailed information about your destination. Let'' @ [CHR 0x27]
     @ ''s continue with what we have.''"

text \<open>Step 4 and what follows it.\<close>

definition run_step4 ::
  "agents \<Rightarrow> py_object \<Rightarrow> py_object \<Rightarrow> py_object \<Rightarrow> workflow_run" where
  "run_step4 ag travel_info flight_details destination_info =
     (let s = generate_travel_plan ag travel_info flight_details destination_info;
          ys = [progress ''Generating your complete travel plan...'']
      in (case outcome s of
            Inl ex \<Rightarrow> \<lparr>yielded = ys, calls = agent_calls s, raised = Some ex\<rparr>
          | Inr travel_plan \<Rightarrow>
              if travel_plan = CNone then
                (case partial_report flight_details destination_info of
                   Inl ex \<Rightarrow> \<lparr>yielded = ys, calls = agent_calls s, raised = Some ex\<rparr>
                 | Inr report \<Rightarrow>
                     \<lparr>yielded = ys @ [completed report], calls = agent_calls s, raised = None\<rparr>)
              else
                \<lparr>yielded = ys @ [\<lparr>content = travel_plan, event = workflow_completed\<rparr>],
                 calls = agent_calls s, raised = None\<rparr>))"

text \<open>Step 3 and what follows it.\<close>

definition run_step3 :: "agents \<Rightarrow> py_object \<Rightarrow> py_object \<Rightarrow> workflow_run" where
  "run_step3 ag travel_info flight_details =
     (let s = get_destination_info ag travel_info;
          ys = [progress ''Finding accommodation, dining, and attractions...'']
      in (case outcome s of
            Inl ex \<Rightarrow> \<lparr>yielded = ys, calls = agent_calls s, raised = Some ex\<rparr>
          | Inr destination_info \<Rightarrow>
              if destination_info = CNone then
                \<lparr>yielded = ys @ [completed destination_apology],
                 calls = agent_calls s, raised = None\<rparr>
              else
                (let r = run_step4 ag travel_info flight_details destination_info
                 in \<lparr>yielded = ys @ yielded r, calls = agent_calls s @ calls r,
                     raised = raised r\<rparr>)))"

text \<open>Step 2 and what follows it.\<close>

definition run_step2 :: "agents \<Rightarrow> py_object \<Rightarrow> workflow_run" where
  "run_step2 ag travel_info =
     (let s = workflow_search_flights ag travel_info;
          ys = [progress ''Searching for flights...'']
      in (case outcome s of
            Inl ex \<Rightarrow> \<lparr>yielded = ys, calls = agent_calls s, raised = Some ex\<rparr>
          | Inr flight_details \<Rightarrow>
              if flight_details = CNone then
                \<lparr>yielded = ys @ [completed flights_apology],
                 calls = agent_calls s, raised = None\<rparr>
              else
                (let r = run_step3 ag travel_info flight_details
                 in \<lparr>yielded = ys @ yielded r, calls = agent_calls s @ calls r,
                     raised = raised r\<rparr>)))"

definition run :: "agents \<Rightarrow> string \<Rightarrow> workflow_run" where
  "run ag travel_request =
     (let s = extract_travel_info ag travel_request;
          ys = [progress ''Extracting travel details...'']
      in (case outcome s of
            Inl ex \<Rightarrow> \<lparr>yielded = ys, calls = agent_calls s, raised = Some ex\<rparr>
          | Inr travel_info \<Rightarrow>
              if travel_info = CNone then
                \<lparr>yielded = ys @ [completed travel_info_apology],
                 calls = agent_calls s, raised = None\<rparr>
              else
                (let r = run_step2 ag travel_info
                 in \<lparr>yielded = ys @ yielded r, calls = agent_calls s @ calls r,
                     raised = raised r\<rparr>)))"

text \<open>
  Agents for the examples: the extractor finds a five-day trip to London, the flight agent
  recommends a flight that left years ago, the other two answer with text.
\<close>

definition example_travel_info :: TravelInfo where
  "example_travel_info =
     \<lparr>ti_destination = ''London'', ti_duration = ''5 days'', ti_travel_dates = ''2025-03-15'',
      ti_purpose = ''tourism'', ti_preferences = ''budget'', ti_special_requests = None\<rparr>"

definition example_flight_details :: FlightDetails where
  "example_flight_details =
     \<lparr>fd_origin = ''JFK'', fd_destination = ''LHR'', fd_departure_date = ''2020-01-01'',
      fd_return_date = None, fd_recommended_flights = ''BA 178'', fd_best_option = ''BA 178''\<rparr>"

definition example_destination_info :: DestinationInfo where
  "example_destination_info =
     \<lparr>di_accommodations = ''hostels'', di_dining = ''pubs'', di_attractions = ''museums'',
      di_transportation = ''tube'', di_urls = None\<rparr>"

definition example_agents :: agents where
  "example_agents =
     \<lparr>travel_info_agent = (\<lambda>m. Inr (Some (CTravelInfo example_travel_info))),
      flight_search_agent = (\<lambda>m. Inr (Some (CFlightDetails example_flight_details))),
      destination_info_agent = (\<lambda>m. Inr (Some (CDestinationInfo example_destination_info))),
      travel_plan_agent = (\<lambda>m. Inr (Some (CStr ''Day 1: arrive''))),
      dumps_indent4 = show_json\<rparr>"

section \<open>Properties of the flight tool\<close>

subsection \<open>Input validation\<close>

lemma validate_inputs_bad_codes:
  "length origin \<noteq> 3 \<or> length destination \<noteq> 3 \<Longrightarrow>
   validate_inputs e origin destination departure_date return_date adults =
     Inl (ValueError (if origin = [] \<or> destination = []
                      then ''Origin and destination airport codes are required''
                      else ''Airport codes must be 3-letter IATA codes''))"
  by (auto simp: validate_inputs_def check_airport_codes_def)

text \<open>
  C3. When the origin or the destination is not exactly three characters long, the tool
  returns a validation error string and makes no remote request: the message says that
  the codes are required when one of them is empty, and that they must be 3-letter IATA
  codes otherwise.
\<close>

theorem search_flights_rejects_bad_airport_codes:
  assumes "length origin \<noteq> 3 \<or> length destination \<noteq> 3"
  shows "search_flights e origin destination departure_date return_date adults currency
             max_results non_stop travel_class =
           \<lparr>returned = Inr (''Validation error: '' @
                (if origin = [] \<or> destination = []
                 then ''Origin and destination airport codes are required''
                 else ''Airport codes must be 3-letter IATA codes'')),
            requests = []\<rparr>"
  using assms
  by (simp add: search_flights_def search_flights_try_def validate_inputs_bad_codes Let_def)

theorem search_flights_rejects_bad_airport_codes_witness:
  "search_flights example_env ''JF'' ''LHR'' ''2025-03-15'' None 1 ''INR'' 5 False None =
     \<lparr>returned = Inr ''Validation error: Airport codes must be 3-letter IATA codes'',
      requests = []\<rparr> \<and>
   search_flights example_env '''' ''LHR'' ''2025-03-15'' None 1 ''INR'' 5 False None =
     \<lparr>returned = Inr ''Validation error: Origin and destination airport codes are required'',
      requests = []\<rparr>"
  using search_flights_rejects_bad_airport_codes
          [of "''JF''" "''LHR''" example_env "''2025-03-15''" None 1 "''INR''" 5 False None]
        search_flights_rejects_bad_airport_codes
          [of "''''" "''LHR''" example_env "''2025-03-15''" None 1 "''INR''" 5 False None]
  by simp

subsection \<open>Reshaping data that follows the schema\<close>

lemma for_each_all_ok:
  "(\<And>x. x \<in> set xs \<Longrightarrow> f x = Inr (g x)) \<Longrightarrow> for_each f xs = Inr (map g xs)"
  by (induction xs) auto

lemma getitem_field:
  "field k v = Some x \<Longrightarrow> getitem v k = Inr x"
  by (cases v) (auto simp: field_def)

lemma has_key_field:
  "has_key v k \<Longrightarrow> \<exists>x. field k v = Some x"
  by (cases v) (auto simp: has_key_def field_def)

lemma getitem_has_key:
  "has_key v k \<Longrightarrow> getitem v k = Inr (the (field k v))"
  using has_key_field [of v k] by (auto simp: getitem_field)

lemma dict_get_field_or:
  "is_dict v \<Longrightarrow> dict_get v k d = Inr (field_or k d v)"
  by (cases v) (auto simp: is_dict_def field_or_def field_def)

lemma has_key_is_dict: "has_key v k \<Longrightarrow> is_dict v"
  by (cases v) (auto simp: has_key_def is_dict_def)

lemma field_is_dict: "field k v = Some x \<Longrightarrow> is_dict v"
  by (cases v) (auto simp: field_def is_dict_def)

lemma field_JObj [simp]: "field k (JObj kvs) = map_of kvs k"
  by (simp add: field_def)

lemma process_endpoint_ok:
  assumes "endpoint_ok p"
  shows "process_endpoint p = Inr (reshape_endpoint p)"
proof -
  have keys: "has_key p ''iataCode''" "has_key p ''at''"
    using assms by (auto simp: endpoint_ok_def)
  have dict: "is_dict p" using keys(1) by (rule has_key_is_dict)
  show ?thesis
    by (simp add: process_endpoint_def reshape_endpoint_def getitem_has_key keys
          dict_get_field_or dict)
qed

lemma process_segment_ok:
  assumes "segment_ok s"
  shows "process_segment s = Inr (reshape_segment s)"
proof -
  obtain d a where d: "field ''departure'' s = Some d" "endpoint_ok d"
    and a: "field ''arrival'' s = Some a" "endpoint_ok a"
    using assms by (auto simp: segment_ok_def split: option.splits)
  have dict: "is_dict s" using d(1) by (rule field_is_dict)
  have keys: "has_key s ''carrierCode''" "has_key s ''number''"
    using assms by (auto simp: segment_ok_def)
  have air: "is_dict (field_or ''aircraft'' (JObj []) s)"
    using assms by (auto simp: segment_ok_def field_or_def is_dict_def split: option.splits)
  show ?thesis
    by (simp add: process_segment_def reshape_segment_def getitem_field d a
          process_endpoint_ok getitem_has_key keys dict_get_field_or dict air)
qed

lemma process_itinerary_ok:
  assumes "itinerary_ok i"
  shows "process_itinerary i = Inr (reshape_itinerary i)"
proof -
  obtain segs where s: "field ''segments'' i = Some (JArr segs)" "list_all segment_ok segs"
    using assms by (auto simp: itinerary_ok_def split: option.splits json.splits)
  have dict: "is_dict i" using s(1) by (rule field_is_dict)
  have loop: "for_each process_segment segs = Inr (map reshape_segment segs)"
    using s(2) by (intro for_each_all_ok) (simp add: list_all_iff process_segment_ok)
  show ?thesis
    by (simp add: process_itinerary_def reshape_itinerary_def getitem_field s(1) loop
          dict_get_field_or dict elements_def)
qed

lemma process_offer_ok:
  assumes "offer_ok offer"
  shows "process_offer offer = Inr (reshape_offer offer)"
proof -
  obtain p its where p: "field ''price'' offer = Some p" "has_key p ''total''" "has_key p ''currency''"
    and i: "field ''itineraries'' offer = Some (JArr its)" "list_all itinerary_ok its"
    and k: "has_key offer ''id''"
    using assms by (auto simp: offer_ok_def split: option.splits json.splits)
  have loop: "for_each process_itinerary its = Inr (map reshape_itinerary its)"
    using i(2) by (intro for_each_all_ok) (simp add: list_all_iff process_itinerary_ok)
  show ?thesis
    by (simp add: process_offer_def reshape_offer_def getitem_field p i(1) k loop
          getitem_has_key elements_def)
qed

lemma process_flight_results_ok:
  assumes "offers_ok flight_data"
  shows "process_flight_results flight_data =
           Inr (JObj [(''count'', JInt (int (length (elements (Some flight_data))))),
                      (''flights'', JArr (map reshape_offer (elements (Some flight_data))))])"
proof (cases flight_data)
  case (JArr offers)
  then have "list_all offer_ok offers" using assms by (simp add: offers_ok_def)
  then have loop: "for_each process_offer offers = Inr (map reshape_offer offers)"
    by (intro for_each_all_ok) (simp add: list_all_iff process_offer_ok)
  show ?thesis
    by (cases offers) (use JArr loop in \<open>auto simp: process_flight_results_def elements_def\<close>)
qed (use assms in \<open>auto simp: offers_ok_def process_flight_results_def elements_def\<close>)

subsection \<open>A successful search\<close>

lemma check_return_date_ok:
  assumes "return_date = None \<or> return_date = Some [] \<or>
           (\<exists>r k. return_date = Some r \<and> strptime e r = Inr k \<and>
                  (departure_date = [] \<or> (\<exists>d. strptime e departure_date = Inr d \<and> d \<le> k)))"
  shows "check_return_date e departure_date return_date = Inr ()"
  using assms
  by (auto simp: check_return_date_def return_date_try_def)

lemma validate_inputs_ok:
  assumes "length origin = 3" "length destination = 3"
    and "departure_date = [] \<or> (\<exists>d. strptime e departure_date = Inr d)"
    and "check_return_date e departure_date return_date = Inr ()"
    and "1 \<le> adults"
  shows "validate_inputs e origin destination departure_date return_date adults = Inr ()"
  using assms
  by (auto simp: validate_inputs_def check_airport_codes_def check_departure_date_def
        check_adults_def)

lemma validate_inputs_return_before:
  assumes "length origin = 3" "length destination = 3"
    and "departure_date \<noteq> []" "strptime e departure_date = Inr d"
    and "r \<noteq> []" "strptime e r = Inr k" "k < d"
  shows "validate_inputs e origin destination departure_date (Some r) adults =
           Inl (ValueError ''Return date must be after departure date'')"
  using assms
  by (auto simp: validate_inputs_def check_airport_codes_def check_departure_date_def
        check_return_date_def return_date_try_def)

lemma search_flights_invalid:
  "validate_inputs e origin destination departure_date return_date adults = Inl ex \<Longrightarrow>
   search_flights e origin destination departure_date return_date adults currency
       max_results non_stop travel_class =
     \<lparr>returned = handle_exn e ex, requests = []\<rparr>"
  by (simp add: search_flights_def search_flights_try_def)

lemma search_flights_valid:
  "validate_inputs e origin destination departure_date return_date adults = Inr () \<Longrightarrow>
   search_flights e origin destination departure_date return_date adults currency
       max_results non_stop travel_class =
     (let kw = request_kwargs origin destination
                 (if departure_date = [] then strftime e (now e + 1) else departure_date)
                 return_date adults currency max_results non_stop travel_class
      in \<lparr>returned =
             (case flight_offers_search e kw of
                Inl ex \<Rightarrow> handle_exn e ex
              | Inr flight_data \<Rightarrow>
                  (case process_flight_results flight_data of
                     Inl ex \<Rightarrow> handle_exn e ex
                   | Inr processed_results \<Rightarrow> Inr (json_dumps e processed_results))),
           requests = [kw]\<rparr>)"
  by (auto simp: search_flights_def search_flights_try_def Let_def split: sum.splits)

text \<open>
  C1 (as amended). For airport codes of exactly three characters, a non-empty departure
  date that \<^verbatim>\<open>strptime\<close> accepts, a return date that is absent, empty or parses to a day not
  before the departure, at least one adult, and a response of the aggregator that is no
  error and whose data is absent or a list of offers following the schema, the tool returns
  \<^verbatim>\<open>json.dumps\<close> of a document whose \<^verbatim>\<open>count\<close> is the length of its \<^verbatim>\<open>flights\<close> list, one
  entry per offer (so 0 and an empty list when there are no offers).
\<close>

theorem search_flights_count_is_length_of_flights:
  assumes "length origin = 3" "length destination = 3"
    and "departure_date \<noteq> []" "strptime e departure_date = Inr d"
    and "return_date = None \<or> return_date = Some [] \<or>
         (\<exists>r k. return_date = Some r \<and> strptime e r = Inr k \<and> d \<le> k)"
    and "1 \<le> adults"
    and "flight_offers_search e
           (request_kwargs origin destination departure_date return_date adults currency
              max_results non_stop travel_class) = Inr flight_data"
    and "offers_ok flight_data"
  shows "\<exists>flights.
           returned (search_flights e origin destination departure_date return_date adults
                       currency max_results non_stop travel_class) =
             Inr (json_dumps e (JObj [(''count'', JInt (int (length flights))),
                                      (''flights'', JArr flights)])) \<and>
           length flights = length (elements (Some flight_data))"
proof -
  have "check_return_date e departure_date return_date = Inr ()"
    using assms(3-5) by (intro check_return_date_ok) auto
  then have "validate_inputs e origin destination departure_date return_date adults = Inr ()"
    using assms(1,2,4,6) by (intro validate_inputs_ok) auto
  then have "returned (search_flights e origin destination departure_date return_date adults
                       currency max_results non_stop travel_class) =
             Inr (json_dumps e
               (JObj [(''count'', JInt (int (length (map reshape_offer (elements (Some flight_data)))))),
                      (''flights'', JArr (map reshape_offer (elements (Some flight_data))))]))"
    using assms(3,7,8)
    by (simp add: search_flights_valid process_flight_results_ok)
  then show ?thesis
    by (intro exI [of _ "map reshape_offer (elements (Some flight_data))"]) simp
qed


text \<open>The concrete environment, field by field.\<close>

lemma example_env_simps:
  "now example_env = 739324"
  "strptime example_env = example_strptime"
  "strftime example_env = example_strftime"
  "flight_offers_search example_env = (\<lambda>kw. Inr (JArr []))"
  "json_loads example_env = (\<lambda>s. None)"
  "json_dumps example_env = show_json"
  "py_str example_env = (\<lambda>v. ''?'')"
  by (simp_all add: example_env_def)

lemma example_strptime_simps:
  "example_strptime ''2020-01-01'' = Inr 737425"
  "example_strptime ''2025-03-10'' = Inr 739320"
  "example_strptime ''2025-03-15'' = Inr 739325"
  "example_strptime ''2025-03-20'' = Inr 739330"
  by (simp_all add: example_strptime_def)

lemma offers_env_simps:
  "strptime offers_env = example_strptime"
  "flight_offers_search offers_env = (\<lambda>kw. Inr (JArr [example_offer]))"
  "json_dumps offers_env = show_json"
  by (simp_all add: offers_env_def example_env_def)

lemma example_offer_ok: "offers_ok (JArr [example_offer])"
  by (simp add: offers_ok_def offer_ok_def itinerary_ok_def segment_ok_def endpoint_ok_def
        has_key_def field_JObj is_dict_def example_offer_def example_segment_def)

lemma reshape_example_offer:
  "reshape_offer example_offer =
     JObj [(''id'', JStr ''1''),
           (''price'', JObj [(''total'', JStr ''355.34''), (''currency'', JStr ''INR'')]),
           (''itineraries'',
            JArr [JObj [(''duration'', JStr ''N/A''),
                        (''segments'',
                         JArr [JObj [(''departure'',
                                      JObj [(''iataCode'', JStr ''JFK''),
                                            (''terminal'', JStr ''N/A''),
                                            (''at'', JStr ''2025-03-15T18:00:00'')]),
                                     (''arrival'',
                                      JObj [(''iataCode'', JStr ''LHR''),
                                            (''terminal'', JStr ''5''),
                                            (''at'', JStr ''2025-03-16T06:00:00'')]),
                                     (''carrierCode'', JStr ''BA''),
                                     (''flightNumber'', JStr ''178''),
                                     (''aircraft'', JStr ''N/A''),
                                     (''duration'', JStr ''N/A'')]])]])]"
  by (simp add: reshape_offer_def reshape_itinerary_def reshape_segment_def reshape_endpoint_def
        field_or_def field_def elements_def example_offer_def example_segment_def)

lemma show_json_count:
  "show_json (JObj [(''count'', JInt 1), (''flights'', JArr [x])]) \<noteq>
   show_json (JObj [(''count'', JInt 0), (''flights'', JArr [])])"
  by (simp add: show_int_def show_nat.simps)

theorem search_flights_count_is_length_of_flights_witness:
  "offers_ok (JArr [example_offer]) \<and>
   returned (search_flights offers_env ''JFK'' ''LHR'' ''2025-03-15'' (Some ''2025-03-20'') 1
               ''INR'' 5 False None) =
     Inr (show_json (JObj [(''count'', JInt 1),
                           (''flights'', JArr [reshape_offer example_offer])])) \<and>
   (\<exists>flights.
      returned (search_flights offers_env ''JFK'' ''LHR'' ''2025-03-15'' (Some ''2025-03-20'') 1
                  ''INR'' 5 False None) =
        Inr (show_json (JObj [(''count'', JInt (int (length flights))),
                              (''flights'', JArr flights)])) \<and>
      length flights = 1) \<and>
   show_json (JObj [(''count'', JInt 1), (''flights'', JArr [reshape_offer example_offer])]) \<noteq>
     show_json (JObj [(''count'', JInt 0), (''flights'', JArr [])])"
proof -
  have 1: "strptime offers_env ''2025-03-15'' = Inr 739325"
    by (simp add: offers_env_simps example_strptime_simps)
  have 2: "Some ''2025-03-20'' = None \<or> Some ''2025-03-20'' = Some [] \<or>
           (\<exists>r k. Some ''2025-03-20'' = Some r \<and> strptime offers_env r = Inr k \<and> 739325 \<le> k)"
    by (simp add: offers_env_simps example_strptime_simps)
  have 3: "flight_offers_search offers_env
             (request_kwargs ''JFK'' ''LHR'' ''2025-03-15'' (Some ''2025-03-20'') 1 ''INR'' 5
                False None) = Inr (JArr [example_offer])"
    by (simp add: offers_env_simps)
  from search_flights_count_is_length_of_flights
         [of "''JFK''" "''LHR''" "''2025-03-15''" offers_env 739325 "Some ''2025-03-20''" 1
             "''INR''" 5 False None "JArr [example_offer]", OF _ _ _ 1 2 _ 3 example_offer_ok]
  have general: "\<exists>flights.
      returned (search_flights offers_env ''JFK'' ''LHR'' ''2025-03-15'' (Some ''2025-03-20'') 1
                  ''INR'' 5 False None) =
        Inr (show_json (JObj [(''count'', JInt (int (length flights))),
                              (''flights'', JArr flights)])) \<and>
      length flights = 1"
    by (simp add: elements_def offers_env_simps)
  have v: "validate_inputs offers_env ''JFK'' ''LHR'' ''2025-03-15'' (Some ''2025-03-20'') 1 = Inr ()"
    using 1 2 by (intro validate_inputs_ok check_return_date_ok) auto
  have explicit:
    "returned (search_flights offers_env ''JFK'' ''LHR'' ''2025-03-15'' (Some ''2025-03-20'') 1
               ''INR'' 5 False None) =
     Inr (show_json (JObj [(''count'', JInt 1),
                           (''flights'', JArr [reshape_offer example_offer])]))"
    by (simp add: search_flights_valid [OF v] Let_def offers_env_simps
          process_flight_results_ok [OF example_offer_ok] elements_def del: show_json.simps)
  from example_offer_ok explicit general show_json_count show ?thesis by blast
qed

text \<open>
  The claim as first stated fails: with no adult, or a return date before the departure,
  the result is a validation error and no request is made; with an offer that lacks its
  \<^verbatim>\<open>id\<close>, the \<^verbatim>\<open>KeyError\<close> becomes the text of an unexpected error.
\<close>

theorem search_flights_not_always_json:
  "search_flights example_env ''JFK'' ''LHR'' ''2025-03-15'' None 0 ''INR'' 5 False None =
     \<lparr>returned = Inr ''Validation error: Number of adults must be a positive integer'',
      requests = []\<rparr> \<and>
   search_flights example_env ''JFK'' ''LHR'' ''2025-03-15'' (Some ''2025-03-10'') 1 ''INR'' 5
       False None =
     \<lparr>returned = Inr ''Validation error: Return date must be after departure date'',
      requests = []\<rparr> \<and>
   returned (search_flights (example_env\<lparr>flight_offers_search := (\<lambda>kw. Inr (JArr [JObj []]))\<rparr>)
               ''JFK'' ''LHR'' ''2025-03-15'' None 1 ''INR'' 5 False None) =
     Inr (''An unexpected error occurred: '' @ quoted ''id'')"
  by (simp add: search_flights_def search_flights_try_def validate_inputs_def
        check_airport_codes_def check_departure_date_def check_return_date_def
        return_date_try_def check_adults_def example_env_simps example_strptime_simps
        process_flight_results_def process_offer_def quoted_def Let_def)

subsection \<open>A return date before the departure\<close>

text \<open>
  C4 (as amended). When the departure date is given and parses, and the return date is
  given and parses to a day strictly before it, the tool makes no remote request and
  returns a validation error string. With two airport codes of three characters it is the
  message that the return date must be after the departure date; with another code the
  airport-code check, which comes first, gives its own message.
\<close>

theorem search_flights_return_before_departure:
  assumes "departure_date \<noteq> []" "strptime e departure_date = Inr d"
    and "r \<noteq> []" "strptime e r = Inr k" "k < d"
  shows "requests (search_flights e origin destination departure_date (Some r) adults currency
                     max_results non_stop travel_class) = [] \<and>
         (\<exists>m. returned (search_flights e origin destination departure_date (Some r) adults
                          currency max_results non_stop travel_class) =
                 Inr (''Validation error: '' @ m)) \<and>
         (length origin = 3 \<and> length destination = 3 \<longrightarrow>
            returned (search_flights e origin destination departure_date (Some r) adults
                        currency max_results non_stop travel_class) =
              Inr ''Validation error: Return date must be after departure date'')"
proof (cases "length origin = 3 \<and> length destination = 3")
  case True
  then have "validate_inputs e origin destination departure_date (Some r) adults =
               Inl (ValueError ''Return date must be after departure date'')"
    using assms by (intro validate_inputs_return_before) auto
  then show ?thesis by (simp add: search_flights_invalid)
next
  case False
  then have "length origin \<noteq> 3 \<or> length destination \<noteq> 3" by simp
  from validate_inputs_bad_codes [OF this] False show ?thesis
    by (simp add: search_flights_invalid)
qed

theorem search_flights_return_before_departure_witness:
  "search_flights example_env ''JFK'' ''LHR'' ''2025-03-15'' (Some ''2025-03-10'') 1 ''INR'' 5
       False None =
     \<lparr>returned = Inr ''Validation error: Return date must be after departure date'',
      requests = []\<rparr>"
proof -
  have 1: "strptime example_env ''2025-03-15'' = Inr 739325"
    and 2: "strptime example_env ''2025-03-10'' = Inr 739320"
    by (simp_all add: example_env_simps example_strptime_simps)
  from search_flights_return_before_departure
         [of "''2025-03-15''" example_env 739325 "''2025-03-10''" 739320 "''JFK''" "''LHR''"
             1 "''INR''" 5 False None, OF _ 1 _ 2]
  show ?thesis by (cases "search_flights example_env ''JFK'' ''LHR'' ''2025-03-15'' (Some ''2025-03-10'') 1 ''INR'' 5
       False None") simp
qed

text \<open>
  The claim as first stated fails: with an empty origin the dates are never looked at, and
  the message is the one about the airport codes.
\<close>

theorem search_flights_airport_check_comes_first:
  "example_strptime ''2025-03-15'' = Inr 739325 \<and>
   example_strptime ''2025-03-10'' = Inr 739320 \<and>
   search_flights example_env '''' ''LHR'' ''2025-03-15'' (Some ''2025-03-10'') 1 ''INR'' 5
       False None =
     \<lparr>returned = Inr ''Validation error: Origin and destination airport codes are required'',
      requests = []\<rparr>"
  by (simp add: search_flights_def search_flights_try_def validate_inputs_def
        check_airport_codes_def example_strptime_simps)

subsection \<open>The default departure date\<close>

lemma request_kwargs_departure:
  "map_of (request_kwargs origin destination departure_date return_date adults currency
             max_results non_stop travel_class) ''departureDate'' = Some (KStr departure_date)"
  by (simp add: request_kwargs_def)

lemma not_departure_message:
  "\<not> str_contains ''must be after'' ''Departure date must be in YYYY-MM-DD format''"
  by simp

lemma check_return_date_not_departure_message:
  "check_return_date e [] return_date \<noteq>
     Inl (ValueError ''Departure date must be in YYYY-MM-DD format'')"
proof
  assume a: "check_return_date e [] return_date =
               Inl (ValueError ''Departure date must be in YYYY-MM-DD format'')"
  then obtain r where r: "return_date = Some r" "r \<noteq> []"
    by (auto simp: check_return_date_def split: option.splits if_splits)
  show False
  proof (cases "return_date_try e [] r")
    case (Inl ex)
    then obtain m where m: "ex = ValueError m"
      by (auto simp: return_date_try_def split: sum.splits)
    with a r Inl not_departure_message show False
      by (auto simp: check_return_date_def split: if_splits)
  next
    case (Inr u)
    with a r show False by (simp add: check_return_date_def)
  qed
qed

text \<open>
  C5. With two airport codes of three characters and an empty departure date, every remote
  request the tool makes carries tomorrow's date (the clock plus one day, formatted) as
  \<^verbatim>\<open>departureDate\<close>; the validation never raises the departure-date format error; and
  when the return date and the number of adults pass their checks, exactly one request is
  made, the one built with tomorrow's date.
\<close>

theorem search_flights_defaults_to_tomorrow:
  assumes "length origin = 3" "length destination = 3"
  shows "(\<forall>kw \<in> set (requests (search_flights e origin destination [] return_date adults
                                  currency max_results non_stop travel_class)).
            map_of kw ''departureDate'' = Some (KStr (strftime e (now e + 1)))) \<and>
         validate_inputs e origin destination [] return_date adults \<noteq>
           Inl (ValueError ''Departure date must be in YYYY-MM-DD format'') \<and>
         ((return_date = None \<or> return_date = Some [] \<or>
             (\<exists>r k. return_date = Some r \<and> strptime e r = Inr k)) \<and> 1 \<le> adults \<longrightarrow>
            requests (search_flights e origin destination [] return_date adults currency
                        max_results non_stop travel_class) =
              [request_kwargs origin destination (strftime e (now e + 1)) return_date adults
                 currency max_results non_stop travel_class])"
proof (intro conjI impI)
  show "\<forall>kw \<in> set (requests (search_flights e origin destination [] return_date adults
                                  currency max_results non_stop travel_class)).
            map_of kw ''departureDate'' = Some (KStr (strftime e (now e + 1)))"
  proof (cases "validate_inputs e origin destination [] return_date adults")
    case (Inl ex)
    then show ?thesis by (simp add: search_flights_invalid)
  next
    case (Inr u)
    then show ?thesis
      by (simp add: search_flights_valid Let_def request_kwargs_departure)
  qed
next
  have "check_airport_codes origin destination = Inr ()"
    using assms by (auto simp: check_airport_codes_def)
  moreover have "check_departure_date e [] = Inr ()"
    by (simp add: check_departure_date_def)
  ultimately have v: "validate_inputs e origin destination [] return_date adults =
      and_then (check_return_date e [] return_date) (\<lambda>_. check_adults adults)"
    by (simp add: validate_inputs_def)
  show "validate_inputs e origin destination [] return_date adults \<noteq>
           Inl (ValueError ''Departure date must be in YYYY-MM-DD format'')"
    using check_return_date_not_departure_message [of e return_date]
    by (cases "check_return_date e [] return_date") (auto simp: v check_adults_def)
next
  assume a: "(return_date = None \<or> return_date = Some [] \<or>
             (\<exists>r k. return_date = Some r \<and> strptime e r = Inr k)) \<and> 1 \<le> adults"
  then have "check_return_date e [] return_date = Inr ()"
    by (intro check_return_date_ok) auto
  then have "validate_inputs e origin destination [] return_date adults = Inr ()"
    using assms a by (intro validate_inputs_ok) auto
  then show "requests (search_flights e origin destination [] return_date adults currency
                        max_results non_stop travel_class) =
              [request_kwargs origin destination (strftime e (now e + 1)) return_date adults
                 currency max_results non_stop travel_class]"
    by (simp add: search_flights_valid Let_def)
qed

theorem search_flights_defaults_to_tomorrow_witness:
  "requests (search_flights example_env ''JFK'' ''LHR'' [] None 1 ''INR'' 5 False None) =
     [[(''originLocationCode'', KStr ''JFK''), (''destinationLocationCode'', KStr ''LHR''),
       (''departureDate'', KStr ''2025-03-15''), (''adults'', KInt 1),
       (''currencyCode'', KStr ''INR''), (''max'', KInt 5)]] \<and>
   validate_inputs example_env ''JFK'' ''LHR'' [] None 1 \<noteq>
     Inl (ValueError ''Departure date must be in YYYY-MM-DD format'')"
  using search_flights_defaults_to_tomorrow
          [of "''JFK''" "''LHR''" example_env None 1 "''INR''" 5 False None]
  by (simp add: request_kwargs_def example_env_simps example_strftime_def)

subsection \<open>The travel class\<close>

lemma request_kwargs_invalid_class:
  "t \<notin> set travel_classes \<Longrightarrow>
   request_kwargs origin destination departure_date return_date adults currency max_results
       non_stop (Some t) =
   request_kwargs origin destination departure_date return_date adults currency max_results
       non_stop None"
  by (simp add: request_kwargs_def)

lemma request_kwargs_no_class:
  "map_of (request_kwargs origin destination departure_date return_date adults currency
             max_results non_stop None) ''travelClass'' = None"
  by (auto simp: request_kwargs_def map_of_append split: option.splits)

text \<open>
  C10. A travel class that is not empty and not one of the four known ones is left out of
  the request: no request carries \<^verbatim>\<open>travelClass\<close>, and the whole run (what is returned and
  what is requested) is the run of the same call without a travel class.
\<close>

theorem search_flights_drops_unknown_travel_class:
  assumes "t \<noteq> []" "t \<notin> set travel_classes"
  shows "search_flights e origin destination departure_date return_date adults currency
             max_results non_stop (Some t) =
         search_flights e origin destination departure_date return_date adults currency
             max_results non_stop None \<and>
         (\<forall>kw \<in> set (requests (search_flights e origin destination departure_date return_date
                                  adults currency max_results non_stop (Some t))).
            map_of kw ''travelClass'' = None)"
proof -
  have eq: "search_flights e origin destination departure_date return_date adults currency
             max_results non_stop (Some t) =
         search_flights e origin destination departure_date return_date adults currency
             max_results non_stop None"
    using assms(2)
    by (cases "validate_inputs e origin destination departure_date return_date adults")
       (simp_all add: search_flights_def search_flights_try_def request_kwargs_invalid_class)
  have "\<forall>kw \<in> set (requests (search_flights e origin destination departure_date return_date
                                  adults currency max_results non_stop None)).
            map_of kw ''travelClass'' = None"
  proof (cases "validate_inputs e origin destination departure_date return_date adults")
    case (Inl ex)
    then show ?thesis by (simp add: search_flights_invalid)
  next
    case (Inr u)
    then show ?thesis
      by (simp add: search_flights_valid Let_def request_kwargs_no_class)
  qed
  with eq show ?thesis by simp
qed

theorem search_flights_drops_unknown_travel_class_witness:
  "search_flights example_env ''JFK'' ''LHR'' ''2025-03-15'' None 1 ''INR'' 5 False
       (Some ''LUXURY'') =
   search_flights example_env ''JFK'' ''LHR'' ''2025-03-15'' None 1 ''INR'' 5 False None \<and>
   requests (search_flights example_env ''JFK'' ''LHR'' ''2025-03-15'' None 1 ''INR'' 5 False
               (Some ''LUXURY'')) =
     [[(''originLocationCode'', KStr ''JFK''), (''destinationLocationCode'', KStr ''LHR''),
       (''departureDate'', KStr ''2025-03-15''), (''adults'', KInt 1),
       (''currencyCode'', KStr ''INR''), (''max'', KInt 5)]]"
proof -
  have 1: "''LUXURY'' \<noteq> []" and 2: "''LUXURY'' \<notin> set travel_classes"
    by (simp_all add: travel_classes_def)
  have 3: "requests (search_flights example_env ''JFK'' ''LHR'' ''2025-03-15'' None 1 ''INR'' 5
                       False None) =
     [[(''originLocationCode'', KStr ''JFK''), (''destinationLocationCode'', KStr ''LHR''),
       (''departureDate'', KStr ''2025-03-15''), (''adults'', KInt 1),
       (''currencyCode'', KStr ''INR''), (''max'', KInt 5)]]"
    by (simp add: search_flights_def search_flights_try_def validate_inputs_def
        check_airport_codes_def check_departure_date_def check_return_date_def
        check_adults_def example_env_simps example_strptime_simps request_kwargs_def Let_def
        split: sum.splits)
  from search_flights_drops_unknown_travel_class
         [of "''LUXURY''" example_env "''JFK''" "''LHR''" "''2025-03-15''" None 1 "''INR''" 5
             False, OF 1 2] 3
  show ?thesis by simp
qed

subsection \<open>Missing optional fields\<close>

lemma the_field: "has_key v k \<Longrightarrow> Some (the (field k v)) = field k v"
  using has_key_field [of v k] by auto

lemma field_not_None: "has_key v k \<Longrightarrow> field k v \<noteq> None"
  using has_key_field [of v k] by auto

lemma copied_the_field: "has_key v k \<Longrightarrow> copied (field k v) (Some (the (field k v)))"
  by (simp add: copied_def the_field field_not_None)

lemma copied_or_NA_field_or: "copied_or_NA (field k v) (Some (field_or k (JStr ''N/A'') v))"
  by (simp add: copied_or_NA_def field_or_def)

lemma at_path_field: "at_path v [Key k] = field k v"
  by (simp split: option.splits)

lemma at_path_field2:
  "field k v = Some x \<Longrightarrow> at_path v [Key k, Key k'] = field k' x"
  by (simp split: option.splits)

lemma reshape_endpoint_fields:
  "field ''iataCode'' (reshape_endpoint d) = Some (the (field ''iataCode'' d))"
  "field ''terminal'' (reshape_endpoint d) = Some (field_or ''terminal'' (JStr ''N/A'') d)"
  "field ''at'' (reshape_endpoint d) = Some (the (field ''at'' d))"
  by (simp_all add: reshape_endpoint_def)

lemma reshape_segment_fields:
  "field ''departure'' (reshape_segment s) = Some (reshape_endpoint (the (field ''departure'' s)))"
  "field ''arrival'' (reshape_segment s) = Some (reshape_endpoint (the (field ''arrival'' s)))"
  "field ''carrierCode'' (reshape_segment s) = Some (the (field ''carrierCode'' s))"
  "field ''flightNumber'' (reshape_segment s) = Some (the (field ''number'' s))"
  "field ''aircraft'' (reshape_segment s) =
     Some (field_or ''code'' (JStr ''N/A'') (field_or ''aircraft'' (JObj []) s))"
  "field ''duration'' (reshape_segment s) = Some (field_or ''duration'' (JStr ''N/A'') s)"
  by (simp_all add: reshape_segment_def)

lemma aircraft_code_rendered:
  "copied_or_NA (at_path s [Key ''aircraft'', Key ''code''])
     (Some (field_or ''code'' (JStr ''N/A'') (field_or ''aircraft'' (JObj []) s)))"
  by (cases "field ''aircraft'' s")
     (simp_all add: copied_or_NA_def field_or_def split: option.splits)

lemma segment_rendered_reshape:
  assumes "segment_ok s"
  shows "segment_rendered s (reshape_segment s)"
proof -
  obtain d a where d: "field ''departure'' s = Some d" "endpoint_ok d"
    and a: "field ''arrival'' s = Some a" "endpoint_ok a"
    using assms by (auto simp: segment_ok_def split: option.splits)
  have keys: "has_key s ''carrierCode''" "has_key s ''number''"
    using assms by (auto simp: segment_ok_def)
  have dk: "has_key d ''iataCode''" "has_key d ''at''"
    and ak: "has_key a ''iataCode''" "has_key a ''at''"
    using d(2) a(2) by (auto simp: endpoint_ok_def)
  have dep: "at_path (reshape_segment s) [Key ''departure'', Key k] = field k (reshape_endpoint d)"
    and arr: "at_path (reshape_segment s) [Key ''arrival'', Key k] = field k (reshape_endpoint a)"
    for k
    by (simp_all add: reshape_segment_fields d a split: option.splits)
  show ?thesis
    unfolding segment_rendered_def dep arr at_path_field2 [OF d(1)] at_path_field2 [OF a(1)]
      at_path_field reshape_endpoint_fields reshape_segment_fields
    by (intro conjI copied_the_field copied_or_NA_field_or aircraft_code_rendered dk ak keys)
qed

lemma itinerary_rendered_reshape:
  "itinerary_rendered i (reshape_itinerary i)"
  unfolding itinerary_rendered_def at_path_field
  by (simp add: reshape_itinerary_def copied_or_NA_field_or)

lemma offer_rendered_reshape:
  assumes "offer_ok offer"
  shows "offer_rendered offer (reshape_offer offer)"
proof -
  obtain p where p: "field ''price'' offer = Some p" "has_key p ''total''" "has_key p ''currency''"
    and k: "has_key offer ''id''"
    using assms by (auto simp: offer_ok_def split: option.splits)
  have out: "at_path (reshape_offer offer) [Key ''price'', Key ''total''] =
               Some (the (field ''total'' p))"
    "at_path (reshape_offer offer) [Key ''price'', Key ''currency''] =
               Some (the (field ''currency'' p))"
    "field ''id'' (reshape_offer offer) = Some (the (field ''id'' offer))"
    by (simp_all add: reshape_offer_def p)
  show ?thesis
    unfolding offer_rendered_def out at_path_field2 [OF p(1)] at_path_field
    by (intro conjI copied_the_field p k)
qed

lemma at_path_idx:
  "at_path (JArr xs) (Idx i # p) = (if i < length xs then at_path (xs ! i) p else None)"
  by simp

lemma segments_of_itinerary:
  assumes "itinerary_ok i" "at_path i [Key ''segments'', Idx k] = Some seg"
  shows "segment_ok seg \<and>
         at_path (reshape_itinerary i) [Key ''segments'', Idx k] = Some (reshape_segment seg)"
proof -
  obtain segs where s: "field ''segments'' i = Some (JArr segs)" "list_all segment_ok segs"
    using assms(1) by (auto simp: itinerary_ok_def split: option.splits json.splits)
  from assms(2) s(1) have k: "k < length segs" "seg = segs ! k"
    by (auto split: if_splits)
  then have "segment_ok seg" using s(2) by (simp add: list_all_length)
  moreover have "at_path (reshape_itinerary i) [Key ''segments'', Idx k] =
                   Some (reshape_segment seg)"
    using k by (simp add: reshape_itinerary_def s(1) elements_def)
  ultimately show ?thesis by simp
qed

lemma itineraries_of_offer:
  assumes "offer_ok offer" "at_path offer [Key ''itineraries'', Idx j] = Some i"
  shows "itinerary_ok i \<and>
         at_path (reshape_offer offer) [Key ''itineraries'', Idx j] = Some (reshape_itinerary i)"
proof -
  obtain its where s: "field ''itineraries'' offer = Some (JArr its)" "list_all itinerary_ok its"
    using assms(1) by (auto simp: offer_ok_def split: option.splits json.splits)
  from assms(2) s(1) have k: "j < length its" "i = its ! j"
    by (auto split: if_splits)
  then have "itinerary_ok i" using s(2) by (simp add: list_all_length)
  moreover have "at_path (reshape_offer offer) [Key ''itineraries'', Idx j] =
                   Some (reshape_itinerary i)"
    using k by (simp add: reshape_offer_def s(1) elements_def)
  ultimately show ?thesis by simp
qed

lemma offers_of_data:
  assumes "offers_ok flight_data" "at_path flight_data [Idx n] = Some offer"
  shows "offer_ok offer \<and>
         at_path (JObj [(''count'', JInt (int (length (elements (Some flight_data))))),
                        (''flights'', JArr (map reshape_offer (elements (Some flight_data))))])
           [Key ''flights'', Idx n] = Some (reshape_offer offer)"
proof -
  obtain offers where s: "flight_data = JArr offers" "list_all offer_ok offers"
    using assms by (cases flight_data) (auto simp: offers_ok_def)
  from assms(2) s(1) have k: "n < length offers" "offer = offers ! n"
    by (auto split: if_splits)
  then have "offer_ok offer" using s(2) by (simp add: list_all_length)
  then show ?thesis using k s(1) by (simp add: elements_def)
qed

text \<open>
  C6 (as amended). For data that follows the schema (the mandatory fields are present,
  offers, itineraries and segments are lists, and the aircraft of a segment is a dict when
  present), the reshaping succeeds, and at every position of the
  raw data the output holds the rendering of what stands there: for every offer its
  \<^verbatim>\<open>id\<close> and the \<^verbatim>\<open>total\<close> and \<^verbatim>\<open>currency\<close> of its price are copied; for every itinerary the
  \<^verbatim>\<open>duration\<close> is copied or, when absent, is \<^verbatim>\<open>N/A\<close>; for every segment the \<^verbatim>\<open>iataCode\<close> and
  \<^verbatim>\<open>at\<close> of both ends, the \<^verbatim>\<open>carrierCode\<close> and the flight number are copied, and the two
  terminals, the aircraft code and the duration are copied or, when absent, are \<^verbatim>\<open>N/A\<close>.
\<close>

theorem process_flight_results_renders_fields:
  assumes "offers_ok flight_data"
  shows "\<exists>out. process_flight_results flight_data = Inr out \<and>
     (\<forall>n offer. at_path flight_data [Idx n] = Some offer \<longrightarrow>
        (\<exists>offer'. at_path out [Key ''flights'', Idx n] = Some offer' \<and>
           offer_rendered offer offer' \<and>
           (\<forall>j itinerary. at_path offer [Key ''itineraries'', Idx j] = Some itinerary \<longrightarrow>
              (\<exists>itinerary'. at_path offer' [Key ''itineraries'', Idx j] = Some itinerary' \<and>
                 itinerary_rendered itinerary itinerary' \<and>
                 (\<forall>k segment. at_path itinerary [Key ''segments'', Idx k] = Some segment \<longrightarrow>
                    (\<exists>segment'. at_path itinerary' [Key ''segments'', Idx k] = Some segment' \<and>
                       segment_rendered segment segment'))))))"
proof (intro exI conjI allI impI)
  show "process_flight_results flight_data =
          Inr (JObj [(''count'', JInt (int (length (elements (Some flight_data))))),
                     (''flights'', JArr (map reshape_offer (elements (Some flight_data))))])"
    using assms by (rule process_flight_results_ok)
next
  fix n offer
  assume "at_path flight_data [Idx n] = Some offer"
  from offers_of_data [OF assms this]
  have o: "offer_ok offer"
    and "at_path (JObj [(''count'', JInt (int (length (elements (Some flight_data))))),
                        (''flights'', JArr (map reshape_offer (elements (Some flight_data))))])
           [Key ''flights'', Idx n] = Some (reshape_offer offer)"
    by simp_all
  then show "at_path (JObj [(''count'', JInt (int (length (elements (Some flight_data))))),
                        (''flights'', JArr (map reshape_offer (elements (Some flight_data))))])
           [Key ''flights'', Idx n] = Some (reshape_offer offer)"
    by simp
  show "offer_rendered offer (reshape_offer offer)"
    using o by (rule offer_rendered_reshape)
  fix j itinerary
  assume "at_path offer [Key ''itineraries'', Idx j] = Some itinerary"
  from itineraries_of_offer [OF o this]
  have i: "itinerary_ok itinerary"
    and "at_path (reshape_offer offer) [Key ''itineraries'', Idx j] =
           Some (reshape_itinerary itinerary)"
    by simp_all
  then show "at_path (reshape_offer offer) [Key ''itineraries'', Idx j] =
           Some (reshape_itinerary itinerary)"
    by simp
  show "itinerary_rendered itinerary (reshape_itinerary itinerary)"
    by (rule itinerary_rendered_reshape)
  fix k segment
  assume "at_path itinerary [Key ''segments'', Idx k] = Some segment"
  from segments_of_itinerary [OF i this]
  show "at_path (reshape_itinerary itinerary) [Key ''segments'', Idx k] =
          Some (reshape_segment segment)"
    and "segment_rendered segment (reshape_segment segment)"
    by (simp_all add: segment_rendered_reshape)
qed


lemma at_path_append:
  "at_path v (p @ q) = (case at_path v p of None \<Rightarrow> None | Some x \<Rightarrow> at_path x q)"
proof (induction p arbitrary: v)
  case Nil
  show ?case by simp
next
  case (Cons h p)
  show ?case
  proof (cases h)
    case (Key k)
    then show ?thesis using Cons by (cases "field k v") simp_all
  next
    case (Idx i)
    then show ?thesis using Cons by (cases v) simp_all
  qed
qed

theorem process_flight_results_renders_fields_witness:
  "offers_ok (JArr [example_offer]) \<and>
   (\<exists>out. process_flight_results (JArr [example_offer]) = Inr out \<and>
      at_path out [Key ''flights'', Idx 0, Key ''itineraries'', Idx 0, Key ''segments'', Idx 0,
                   Key ''departure'', Key ''terminal''] = Some (JStr ''N/A'') \<and>
      at_path out [Key ''flights'', Idx 0, Key ''itineraries'', Idx 0, Key ''segments'', Idx 0,
                   Key ''arrival'', Key ''terminal''] = Some (JStr ''5'') \<and>
      at_path out [Key ''flights'', Idx 0, Key ''itineraries'', Idx 0, Key ''segments'', Idx 0,
                   Key ''aircraft''] = Some (JStr ''N/A'') \<and>
      at_path out [Key ''flights'', Idx 0, Key ''itineraries'', Idx 0, Key ''segments'', Idx 0,
                   Key ''flightNumber''] = Some (JStr ''178''))"
proof -
  have ok: "offers_ok (JArr [example_offer])"
    by (simp add: offers_ok_def offer_ok_def itinerary_ok_def segment_ok_def endpoint_ok_def
          has_key_def example_offer_def example_segment_def)
  from process_flight_results_renders_fields [OF ok]
  obtain out where out: "process_flight_results (JArr [example_offer]) = Inr out"
    and offers: "\<And>n offer. at_path (JArr [example_offer]) [Idx n] = Some offer \<Longrightarrow>
        (\<exists>offer'. at_path out [Key ''flights'', Idx n] = Some offer' \<and>
           offer_rendered offer offer' \<and>
           (\<forall>j itinerary. at_path offer [Key ''itineraries'', Idx j] = Some itinerary \<longrightarrow>
              (\<exists>itinerary'. at_path offer' [Key ''itineraries'', Idx j] = Some itinerary' \<and>
                 itinerary_rendered itinerary itinerary' \<and>
                 (\<forall>k segment. at_path itinerary [Key ''segments'', Idx k] = Some segment \<longrightarrow>
                    (\<exists>segment'. at_path itinerary' [Key ''segments'', Idx k] = Some segment' \<and>
                       segment_rendered segment segment')))))"
    by blast
  have "at_path (JArr [example_offer]) [Idx 0] = Some example_offer" by simp
  from offers [OF this] obtain offer' where
    o: "at_path out [Key ''flights'', Idx 0] = Some offer'"
    and its: "\<And>j itinerary. at_path example_offer [Key ''itineraries'', Idx j] = Some itinerary \<Longrightarrow>
              (\<exists>itinerary'. at_path offer' [Key ''itineraries'', Idx j] = Some itinerary' \<and>
                 itinerary_rendered itinerary itinerary' \<and>
                 (\<forall>k segment. at_path itinerary [Key ''segments'', Idx k] = Some segment \<longrightarrow>
                    (\<exists>segment'. at_path itinerary' [Key ''segments'', Idx k] = Some segment' \<and>
                       segment_rendered segment segment')))"
    by blast
  have "at_path example_offer [Key ''itineraries'', Idx 0] =
          Some (JObj [(''segments'', JArr [example_segment])])"
    by (simp add: example_offer_def)
  from its [OF this] obtain itinerary' where
    i: "at_path offer' [Key ''itineraries'', Idx 0] = Some itinerary'"
    and segs: "\<And>k segment.
          at_path (JObj [(''segments'', JArr [example_segment])]) [Key ''segments'', Idx k] =
            Some segment \<Longrightarrow>
          (\<exists>segment'. at_path itinerary' [Key ''segments'', Idx k] = Some segment' \<and>
                       segment_rendered segment segment')"
    by blast
  have "at_path (JObj [(''segments'', JArr [example_segment])]) [Key ''segments'', Idx 0] =
          Some example_segment"
    by simp
  from segs [OF this] obtain segment' where
    s: "at_path itinerary' [Key ''segments'', Idx 0] = Some segment'"
    and r: "segment_rendered example_segment segment'"
    by blast
  have path: "at_path out ([Key ''flights'', Idx 0] @ [Key ''itineraries'', Idx 0]
                @ [Key ''segments'', Idx 0] @ q) = at_path segment' q" for q
    by (simp only: at_path_append o i s option.case)
  have fields:
    "at_path segment' [Key ''departure'', Key ''terminal''] = Some (JStr ''N/A'')"
    "at_path segment' [Key ''arrival'', Key ''terminal''] = Some (JStr ''5'')"
    "at_path segment' [Key ''aircraft''] = Some (JStr ''N/A'')"
    "at_path segment' [Key ''flightNumber''] = Some (JStr ''178'')"
    using r
    by (simp_all add: segment_rendered_def copied_def copied_or_NA_def example_segment_def)
  show ?thesis
    using ok out path [of "[Key ''departure'', Key ''terminal'']"]
      path [of "[Key ''arrival'', Key ''terminal'']"] path [of "[Key ''aircraft'']"]
      path [of "[Key ''flightNumber'']"] fields
    by simp
qed

text \<open>
  The claim without the schema fails: a segment whose \<^verbatim>\<open>aircraft\<close> is \<^verbatim>\<open>null\<close> has no
  aircraft code, no departure terminal and no duration, and all its mandatory fields, yet
  nothing is rendered: reading the code of the aircraft raises, and the tool returns the
  text of an unexpected error.
\<close>

theorem null_aircraft_is_not_rendered:
  "at_path null_aircraft_segment [Key ''aircraft'', Key ''code''] = None \<and>
   at_path null_aircraft_segment [Key ''departure'', Key ''terminal''] = None \<and>
   at_path null_aircraft_segment [Key ''duration''] = None \<and>
   at_path null_aircraft_segment [Key ''carrierCode''] = Some (JStr ''BA'') \<and>
   process_flight_results (JArr [null_aircraft_offer]) =
     Inl (AttributeError (quoted ''NoneType'' @ '' object has no attribute '' @ quoted ''get'')) \<and>
   returned (search_flights
               (example_env\<lparr>flight_offers_search := (\<lambda>kw. Inr (JArr [null_aircraft_offer]))\<rparr>)
               ''JFK'' ''LHR'' ''2025-03-15'' None 1 ''INR'' 5 False None) =
     Inr (''An unexpected error occurred: '' @ quoted ''NoneType''
          @ '' object has no attribute '' @ quoted ''get'')"
proof -
  have p: "process_flight_results (JArr [null_aircraft_offer]) =
     Inl (AttributeError (quoted ''NoneType'' @ '' object has no attribute '' @ quoted ''get''))"
    by (simp add: process_flight_results_def process_offer_def process_itinerary_def
          process_segment_def process_endpoint_def null_aircraft_offer_def
          null_aircraft_segment_def)
  have e: "strptime (example_env\<lparr>flight_offers_search := (\<lambda>kw. Inr (JArr [null_aircraft_offer]))\<rparr>) =
             example_strptime"
    by (simp add: example_env_def)
  have r: "returned (search_flights
               (example_env\<lparr>flight_offers_search := (\<lambda>kw. Inr (JArr [null_aircraft_offer]))\<rparr>)
               ''JFK'' ''LHR'' ''2025-03-15'' None 1 ''INR'' 5 False None) =
     Inr (''An unexpected error occurred: '' @ quoted ''NoneType''
          @ '' object has no attribute '' @ quoted ''get'')"
    by (simp add: search_flights_def search_flights_try_def validate_inputs_def
          check_airport_codes_def check_departure_date_def check_return_date_def
          check_adults_def e example_strptime_simps p Let_def)
  have f: "at_path null_aircraft_segment [Key ''aircraft'', Key ''code''] = None"
    "at_path null_aircraft_segment [Key ''departure'', Key ''terminal''] = None"
    "at_path null_aircraft_segment [Key ''duration''] = None"
    "at_path null_aircraft_segment [Key ''carrierCode''] = Some (JStr ''BA'')"
    by (simp_all add: null_aircraft_segment_def field_def)
  from f p r show ?thesis by simp
qed

subsection \<open>Errors become strings\<close>























section \<open>Properties of the workflow\<close>

lemma example_agents_simps:
  "travel_info_agent example_agents = (\<lambda>m. Inr (Some (CTravelInfo example_travel_info)))"
  "flight_search_agent example_agents = (\<lambda>m. Inr (Some (CFlightDetails example_flight_details)))"
  "destination_info_agent example_agents =
     (\<lambda>m. Inr (Some (CDestinationInfo example_destination_info)))"
  "travel_plan_agent example_agents = (\<lambda>m. Inr (Some (CStr ''Day 1: arrive'')))"
  "dumps_indent4 example_agents = show_json"
  by (simp_all add: example_agents_def)

lemma str_attr_travel_info:
  "str_attr (CTravelInfo t) ''destination'' = Inr (ti_destination t)"
  "str_attr (CTravelInfo t) ''duration'' = Inr (ti_duration t)"
  "str_attr (CTravelInfo t) ''travel_dates'' = Inr (ti_travel_dates t)"
  "str_attr (CTravelInfo t) ''purpose'' = Inr (ti_purpose t)"
  "str_attr (CTravelInfo t) ''preferences'' = Inr (ti_preferences t)"
  by (simp_all add: str_attr_def)

lemma flight_search_query_ok: "\<exists>q. flight_search_query (CTravelInfo t) = Inr q"
  by (simp add: flight_search_query_def str_attr_travel_info)

lemma destination_query_ok: "\<exists>q. destination_query (CTravelInfo t) = Inr q"
  by (simp add: destination_query_def str_attr_travel_info)

lemma str_attr_not_model:
  "str_attr CNone a = Inl (no_attribute CNone a)"
  "str_attr (CStr s) a = Inl (no_attribute (CStr s) a)"
  by (simp_all add: str_attr_def)

subsection \<open>The first step\<close>

text \<open>
  C7 fails on the code. \<^verbatim>\<open>extract_travel_info\<close> logs that the content of the response is not
  a \<^verbatim>\<open>TravelInfo\<close> and returns it all the same. With a string as content the workflow goes
  on to the flight search, whose query cannot be built, and ends with the apology of the
  second step instead of the one for missing travel details.
\<close>

theorem run_passes_untyped_travel_info_on:
  "extract_travel_info
     (example_agents\<lparr>travel_info_agent := (\<lambda>m. Inr (Some (CStr ''Which dates do you have in mind?'')))\<rparr>)
     ''I want to travel'' =
     \<lparr>outcome = Inr (CStr ''Which dates do you have in mind?''),
      agent_calls = [TravelInfoAgent ''I want to travel'']\<rparr> \<and>
   run (example_agents\<lparr>travel_info_agent := (\<lambda>m. Inr (Some (CStr ''Which dates do you have in mind?'')))\<rparr>)
     ''I want to travel'' =
     \<lparr>yielded = [progress ''Extracting travel details...'',
                 progress ''Searching for flights...'',
                 completed flights_apology],
      calls = [TravelInfoAgent ''I want to travel''],
      raised = None\<rparr>"
  by (simp add: run_def run_step2_def extract_travel_info_def workflow_search_flights_def
        flight_search_query_def str_attr_not_model response_content_def Let_def)

text \<open>
  The part of C7 that holds: when the agent raises, gives no response, or gives a response
  with no content, the run is the first progress message and the apology for missing
  travel details, and no other agent is run.
\<close>

lemma run_without_travel_info:
  assumes "travel_info_agent ag travel_request = Inl ex \<or>
           travel_info_agent ag travel_request = Inr None \<or>
           travel_info_agent ag travel_request = Inr (Some CNone)"
  shows "run ag travel_request =
           \<lparr>yielded = [progress ''Extracting travel details...'', completed travel_info_apology],
            calls = [TravelInfoAgent travel_request],
            raised = None\<rparr>"
  using assms
  by (auto simp: run_def extract_travel_info_def response_content_def Let_def)

subsection \<open>The flight search step\<close>

lemma workflow_search_flights_answers:
  assumes "flight_search_query travel_info = Inr q"
    and "flight_search_agent ag q = Inr (Some c)"
  shows "workflow_search_flights ag travel_info =
           \<lparr>outcome = Inr c, agent_calls = [FlightSearchAgent q]\<rparr>"
  using assms by (simp add: workflow_search_flights_def response_content_def)

text \<open>
  C9 (as amended). The flight search step hands back the content of the agent's response
  unchanged; the departure date of the record is the string the agent wrote, and no code
  compares it with the current date.
\<close>

theorem workflow_search_flights_returns_the_agents_record:
  assumes "flight_search_query travel_info = Inr q"
    and "flight_search_agent ag q = Inr (Some c)"
  shows "workflow_search_flights ag travel_info =
           \<lparr>outcome = Inr c, agent_calls = [FlightSearchAgent q]\<rparr>"
  using assms by (rule workflow_search_flights_answers)

theorem workflow_search_flights_returns_the_agents_record_witness:
  "outcome (workflow_search_flights example_agents (CTravelInfo example_travel_info)) =
     Inr (CFlightDetails example_flight_details)"
proof -
  obtain q where q: "flight_search_query (CTravelInfo example_travel_info) = Inr q"
    using flight_search_query_ok by blast
  have "flight_search_agent example_agents q = Inr (Some (CFlightDetails example_flight_details))"
    by (simp add: example_agents_simps)
  from workflow_search_flights_returns_the_agents_record [OF q this]
  show ?thesis by simp
qed

text \<open>
  The claim as first stated fails: on 2025-03-14 the step returns a record that departs on
  2020-01-01.
\<close>

theorem flight_details_may_depart_in_the_past:
  "outcome (workflow_search_flights example_agents (CTravelInfo example_travel_info)) =
     Inr (CFlightDetails example_flight_details) \<and>
   fd_departure_date example_flight_details = ''2020-01-01'' \<and>
   strptime example_env ''2020-01-01'' = Inr 737425 \<and>
   now example_env = 739324 \<and> (737425 :: nat) < 739324"
  by (simp add: workflow_search_flights_def flight_search_query_def str_attr_travel_info
        example_agents_simps response_content_def example_flight_details_def
        example_env_simps example_strptime_simps)

subsection \<open>The destination step\<close>

lemma get_destination_info_returns: "\<exists>c. outcome (get_destination_info ag travel_info) = Inr c"
  by (auto simp: get_destination_info_def split: sum.splits)

lemma get_destination_info_raises:
  assumes "destination_query travel_info = Inr q"
    and "destination_info_agent ag q = Inl ex \<or> destination_info_agent ag q = Inr None"
  shows "get_destination_info ag travel_info =
           \<lparr>outcome = Inr (CDestinationInfo fallback_info),
            agent_calls = [DestinationInfoAgent q]\<rparr>"
  using assms by (auto simp: get_destination_info_def response_content_def)

lemma get_destination_info_answers:
  assumes "destination_query travel_info = Inr q"
    and "destination_info_agent ag q = Inr (Some c)"
  shows "get_destination_info ag travel_info =
           \<lparr>outcome = Inr c, agent_calls = [DestinationInfoAgent q]\<rparr>"
  using assms by (simp add: get_destination_info_def response_content_def)

lemma run_reaches_step3:
  assumes "travel_info_agent ag travel_request = Inr (Some (CTravelInfo t))"
    and "flight_search_query (CTravelInfo t) = Inr fq"
    and "flight_search_agent ag fq = Inr (Some f)" "f \<noteq> CNone"
  shows "yielded (run ag travel_request) =
           [progress ''Extracting travel details...'', progress ''Searching for flights...'']
           @ yielded (run_step3 ag (CTravelInfo t) f)"
  using assms
  by (simp add: run_def run_step2_def extract_travel_info_def response_content_def Let_def
        workflow_search_flights_answers)

lemma run_step4_starts:
  "\<exists>ys. yielded (run_step4 ag travel_info flight_details destination_info) =
          progress ''Generating your complete travel plan...'' # ys"
  by (auto simp: run_step4_def Let_def split: sum.splits)

lemma run_step3_fallback:
  assumes "destination_query travel_info = Inr q"
    and "destination_info_agent ag q = Inl ex \<or> destination_info_agent ag q = Inr None"
  shows "yielded (run_step3 ag travel_info flight_details) =
           progress ''Finding accommodation, dining, and attractions...''
           # yielded (run_step4 ag travel_info flight_details (CDestinationInfo fallback_info))"
  by (simp add: run_step3_def Let_def get_destination_info_raises [OF assms])


lemma get_destination_info_no_query:
  "destination_query travel_info = Inl ex \<Longrightarrow>
   get_destination_info ag travel_info =
     \<lparr>outcome = Inr (CDestinationInfo fallback_info), agent_calls = []\<rparr>"
  by (simp add: get_destination_info_def)

lemma run_survives_destination_failure:
  assumes "travel_info_agent ag travel_request = Inr (Some (CTravelInfo t))"
    and "flight_search_query (CTravelInfo t) = Inr fq"
    and "flight_search_agent ag fq = Inr (Some f)" "f \<noteq> CNone"
    and "destination_query (CTravelInfo t) = Inr dq"
    and "destination_info_agent ag dq = Inl ex"
  shows "\<exists>ys. yielded (run ag travel_request) =
           [progress ''Extracting travel details...'', progress ''Searching for flights...'',
            progress ''Finding accommodation, dining, and attractions...'',
            progress ''Generating your complete travel plan...''] @ ys"
proof -
  have d: "destination_info_agent ag dq = Inl ex \<or> destination_info_agent ag dq = Inr None"
    using assms(6) by simp
  obtain ys where "yielded (run_step4 ag (CTravelInfo t) f (CDestinationInfo fallback_info)) =
          progress ''Generating your complete travel plan...'' # ys"
    using run_step4_starts by blast
  then show ?thesis
    by (simp add: run_reaches_step3 [OF assms(1-4)] run_step3_fallback [OF assms(5) d])
qed

lemma run_step3_none:
  assumes "destination_query travel_info = Inr q"
    and "destination_info_agent ag q = Inr (Some CNone)"
  shows "yielded (run_step3 ag travel_info flight_details) =
           [progress ''Finding accommodation, dining, and attractions...'',
            completed destination_apology]"
  by (simp add: run_step3_def Let_def get_destination_info_answers [OF assms])

text \<open>
  C8 (as amended). \<^verbatim>\<open>get_destination_info\<close> never raises. When the agent raises, or the
  query cannot be built, it returns the fallback record, whose four text fields hold the
  fixed placeholder strings. When the agent answers, the content of the answer is returned
  as it is. A lookup that raises does not halt the workflow: after the three earlier
  progress messages the one of the itinerary step is yielded. An answer with no content
  does halt it: the workflow ends with the apology of the third step.
\<close>

theorem get_destination_info_falls_back:
  "(\<exists>c. outcome (get_destination_info ag travel_info) = Inr c) \<and>
   (\<forall>q ex. destination_query travel_info = Inr q \<and> destination_info_agent ag q = Inl ex \<longrightarrow>
      outcome (get_destination_info ag travel_info) = Inr (CDestinationInfo fallback_info)) \<and>
   (\<forall>ex. destination_query travel_info = Inl ex \<longrightarrow>
      outcome (get_destination_info ag travel_info) = Inr (CDestinationInfo fallback_info)) \<and>
   di_accommodations fallback_info =
     ''Could not retrieve accommodations due to an error. Please search for hotels in your destination area.'' \<and>
   di_dining fallback_info =
     ''Could not retrieve dining information due to an error. Please search for restaurants in your destination area.'' \<and>
   di_attractions fallback_info =
     ''Could not retrieve attractions due to an error. Please search for tourist spots in your destination area.'' \<and>
   di_transportation fallback_info = ''Could not retrieve transportation options.'' \<and>
   (\<forall>q c. destination_query travel_info = Inr q \<and>
          destination_info_agent ag q = Inr (Some c) \<longrightarrow>
      outcome (get_destination_info ag travel_info) = Inr c) \<and>
   (\<forall>travel_request t fq f dq ex.
      travel_info_agent ag travel_request = Inr (Some (CTravelInfo t)) \<and>
      flight_search_query (CTravelInfo t) = Inr fq \<and>
      flight_search_agent ag fq = Inr (Some f) \<and> f \<noteq> CNone \<and>
      destination_query (CTravelInfo t) = Inr dq \<and>
      destination_info_agent ag dq = Inl ex \<longrightarrow>
      (\<exists>ys. yielded (run ag travel_request) =
         [progress ''Extracting travel details...'', progress ''Searching for flights...'',
          progress ''Finding accommodation, dining, and attractions...'',
          progress ''Generating your complete travel plan...''] @ ys)) \<and>
   (\<forall>travel_request t fq f dq.
      travel_info_agent ag travel_request = Inr (Some (CTravelInfo t)) \<and>
      flight_search_query (CTravelInfo t) = Inr fq \<and>
      flight_search_agent ag fq = Inr (Some f) \<and> f \<noteq> CNone \<and>
      destination_query (CTravelInfo t) = Inr dq \<and>
      destination_info_agent ag dq = Inr (Some CNone) \<longrightarrow>
      yielded (run ag travel_request) =
        [progress ''Extracting travel details...'', progress ''Searching for flights...'',
         progress ''Finding accommodation, dining, and attractions...'',
         completed destination_apology])"
proof (intro conjI allI impI)
  show "\<exists>c. outcome (get_destination_info ag travel_info) = Inr c"
    by (rule get_destination_info_returns)
next
  fix q ex
  assume "destination_query travel_info = Inr q \<and> destination_info_agent ag q = Inl ex"
  then show "outcome (get_destination_info ag travel_info) = Inr (CDestinationInfo fallback_info)"
    by (simp add: get_destination_info_raises)
next
  fix ex
  assume "destination_query travel_info = Inl ex"
  then show "outcome (get_destination_info ag travel_info) = Inr (CDestinationInfo fallback_info)"
    by (simp add: get_destination_info_no_query)
next
  fix q c
  assume "destination_query travel_info = Inr q \<and> destination_info_agent ag q = Inr (Some c)"
  then show "outcome (get_destination_info ag travel_info) = Inr c"
    by (simp add: get_destination_info_answers)
next
  fix travel_request t fq f dq ex
  assume "travel_info_agent ag travel_request = Inr (Some (CTravelInfo t)) \<and>
      flight_search_query (CTravelInfo t) = Inr fq \<and>
      flight_search_agent ag fq = Inr (Some f) \<and> f \<noteq> CNone \<and>
      destination_query (CTravelInfo t) = Inr dq \<and>
      destination_info_agent ag dq = Inl ex"
  then show "\<exists>ys. yielded (run ag travel_request) =
         [progress ''Extracting travel details...'', progress ''Searching for flights...'',
          progress ''Finding accommodation, dining, and attractions...'',
          progress ''Generating your complete travel plan...''] @ ys"
    by (intro run_survives_destination_failure) auto
next
  fix travel_request t fq f dq
  assume "travel_info_agent ag travel_request = Inr (Some (CTravelInfo t)) \<and>
      flight_search_query (CTravelInfo t) = Inr fq \<and>
      flight_search_agent ag fq = Inr (Some f) \<and> f \<noteq> CNone \<and>
      destination_query (CTravelInfo t) = Inr dq \<and>
      destination_info_agent ag dq = Inr (Some CNone)"
  then show "yielded (run ag travel_request) =
        [progress ''Extracting travel details...'', progress ''Searching for flights...'',
         progress ''Finding accommodation, dining, and attractions...'',
         completed destination_apology]"
    by (simp add: run_reaches_step3 run_step3_none)
qed (simp_all add: fallback_info_def)

theorem get_destination_info_falls_back_witness:
  "outcome (get_destination_info
              (example_agents\<lparr>destination_info_agent := (\<lambda>m. Inl (OtherException ''timeout''))\<rparr>)
              (CTravelInfo example_travel_info)) =
     Inr (CDestinationInfo fallback_info) \<and>
   yielded (run (example_agents\<lparr>destination_info_agent := (\<lambda>m. Inl (OtherException ''timeout''))\<rparr>)
              ''I want to travel'') =
     [progress ''Extracting travel details...'', progress ''Searching for flights...'',
      progress ''Finding accommodation, dining, and attractions...'',
      progress ''Generating your complete travel plan...'',
      \<lparr>content = CStr ''Day 1: arrive'', event = workflow_completed\<rparr>]"
proof -
  let ?ag = "example_agents\<lparr>destination_info_agent := (\<lambda>m. Inl (OtherException ''timeout''))\<rparr>"
  obtain dq where dq: "destination_query (CTravelInfo example_travel_info) = Inr dq"
    using destination_query_ok by blast
  have "destination_info_agent ?ag dq = Inl (OtherException ''timeout'')" by simp
  with dq get_destination_info_falls_back [of ?ag "CTravelInfo example_travel_info"]
  have 1: "outcome (get_destination_info ?ag (CTravelInfo example_travel_info)) =
             Inr (CDestinationInfo fallback_info)"
    by blast
  have 2: "yielded (run ?ag ''I want to travel'') =
     [progress ''Extracting travel details...'', progress ''Searching for flights...'',
      progress ''Finding accommodation, dining, and attractions...'',
      progress ''Generating your complete travel plan...'',
      \<lparr>content = CStr ''Day 1: arrive'', event = workflow_completed\<rparr>]"
    by (simp add: run_def run_step2_def run_step3_def run_step4_def extract_travel_info_def
          workflow_search_flights_def get_destination_info_def generate_travel_plan_def
          flight_search_query_def destination_query_def travel_plan_input_def model_dump_def
          str_attr_travel_info example_agents_simps response_content_def Let_def)
  from 1 2 show ?thesis by simp
qed

text \<open>
  The claim as first stated fails: when the agent answers with no content, the step returns
  \<^verbatim>\<open>None\<close>, not a record, and the workflow halts with the apology of the third step before
  the itinerary step.
\<close>

theorem get_destination_info_may_return_none:
  "outcome (get_destination_info
              (example_agents\<lparr>destination_info_agent := (\<lambda>m. Inr (Some CNone))\<rparr>)
              (CTravelInfo example_travel_info)) = Inr CNone \<and>
   yielded (run (example_agents\<lparr>destination_info_agent := (\<lambda>m. Inr (Some CNone))\<rparr>)
              ''I want to travel'') =
     [progress ''Extracting travel details...'', progress ''Searching for flights...'',
      progress ''Finding accommodation, dining, and attractions...'',
      completed destination_apology]"
  by (simp add: run_def run_step2_def run_step3_def extract_travel_info_def
        workflow_search_flights_def get_destination_info_def
        flight_search_query_def destination_query_def
        str_attr_travel_info example_agents_simps response_content_def Let_def)

end
